theory Spec2Isabelle
  imports Main "HOL-Library.Sublist"
begin

section \<open>Strings\<close>

text \<open>
  A JavaScript string is modelled as a \<^typ>\<open>string\<close>: a list of code units, here the code
  units up to U+00FF. \<open>js_space\<close> is the class \<open>\s\<close> of regular expressions, which is also
  the set that \<open>String.prototype.trim\<close> strips, on that range: tab, line feed, vertical tab,
  form feed, carriage return, space and no-break space.
\<close>

definition js_space :: "char \<Rightarrow> bool" where
  "js_space c = (c \<in> set [CHR 0x09, CHR 0x0A, CHR 0x0B, CHR 0x0C, CHR 0x0D, CHR 0x20, CHR 0xA0])"

definition trim :: "string \<Rightarrow> string" where
  "trim s = rev (dropWhile js_space (rev (dropWhile js_space s)))"

text \<open>\<open>x || d\<close> where \<open>x\<close> is a string or \<open>undefined\<close>: the empty string is falsy.\<close>

definition or_default :: "string option \<Rightarrow> string \<Rightarrow> string" where
  "or_default x d = (case x of None \<Rightarrow> d | Some s \<Rightarrow> if s = [] then d else s)"

text \<open>\<open>s.includes(t)\<close>: \<open>t\<close> occurs in \<open>s\<close> as a contiguous run of code units.\<close>

fun js_includes :: "string \<Rightarrow> string \<Rightarrow> bool" where
  "js_includes [] t = (t = [])"
| "js_includes (c # s) t = (prefix t (c # s) \<or> js_includes s t)"

text \<open>\<open>toLowerCase\<close> on code units up to U+00FF.\<close>

definition lower_char :: "char \<Rightarrow> char" where
  "lower_char c =
     (let n = (of_char c :: nat)
      in if (65 \<le> n \<and> n \<le> 90) \<or> (192 \<le> n \<and> n \<le> 222 \<and> n \<noteq> 215)
         then char_of (n + 32) else c)"

definition toLowerCase :: "string \<Rightarrow> string" where
  "toLowerCase s = map lower_char s"

text \<open>\<open>s.split('.').pop()\<close>: the text after the last dot, the whole string when it has none.\<close>

definition last_segment :: "string \<Rightarrow> string" where
  "last_segment s = rev (takeWhile (\<lambda>c. c \<noteq> CHR ''.'') (rev s))"

definition unlines :: "string list \<Rightarrow> string" where
  "unlines ls = concat (map (\<lambda>l. l @ ''\<newline>'') ls)"


text \<open>\<open>s.split(d)\<close> for a separator of one code unit.\<close>

fun split_on :: "char \<Rightarrow> string \<Rightarrow> string list" where
  "split_on d [] = [[]]"
| "split_on d (c # s) =
     (if c = d then [] # split_on d s
      else (case split_on d s of [] \<Rightarrow> [[c]] | x # xs \<Rightarrow> (c # x) # xs))"


section \<open>Paths\<close>

text \<open>
  \<open>path.join\<close> of the platform library, in its POSIX form: the non-empty arguments are put
  together with one separator between them and the result is normalised. Normalising drops the
  empty segments and the segments \<open>.\<close>, lets a segment \<open>..\<close> remove the name before it, keeps
  the \<open>..\<close> that have no name before them when the path is relative and drops them when it is
  absolute, and keeps a trailing separator. The state of the fold is the number of leading \<open>..\<close>
  and the names after them.
\<close>

definition segments :: "string \<Rightarrow> string list" where
  "segments p = filter (\<lambda>s. s \<noteq> []) (split_on CHR ''/'' p)"

fun step :: "bool \<Rightarrow> nat \<times> string list \<Rightarrow> string \<Rightarrow> nat \<times> string list" where
  "step absolute (k, ns) s =
     (if s = ''.'' then (k, ns)
      else if s = ''..''
        then (if ns \<noteq> [] then (k, butlast ns)
              else if absolute then (k, ns)
              else (Suc k, ns))
      else (k, ns @ [s]))"

definition resolve :: "bool \<Rightarrow> string list \<Rightarrow> string list" where
  "resolve absolute ss =
     (case foldl (step absolute) (0, []) ss of (k, ns) \<Rightarrow> replicate k ''..'' @ ns)"

fun slashed :: "string list \<Rightarrow> string" where
  "slashed [] = []"
| "slashed [s] = s"
| "slashed (s # t # ss) = s @ ''/'' @ slashed (t # ss)"

definition normalize :: "string \<Rightarrow> string" where
  "normalize p =
     (if p = [] then ''.''
      else
       (let absolute = (hd p = CHR ''/'');
            trailing = (last p = CHR ''/'');
            body = slashed (resolve absolute (segments p))
        in if body = [] then (if absolute then ''/'' else if trailing then ''./'' else ''.'')
           else (if absolute then ''/'' else []) @ body @ (if trailing then ''/'' else [])))"

definition path_join :: "string list \<Rightarrow> string" where
  "path_join args =
     (case filter (\<lambda>a. a \<noteq> []) args of
        [] \<Rightarrow> ''.''
      | a # as \<Rightarrow> normalize (slashed (a # as)))"

definition join :: "string \<Rightarrow> string \<Rightarrow> string" where
  "join a b = path_join [a, b]"

text \<open>
  A plain name is the name of an entry of a directory: not empty, without a separator, and
  neither \<open>.\<close> nor \<open>..\<close>.
\<close>

definition plain :: "string \<Rightarrow> bool" where
  "plain n = (n \<noteq> [] \<and> CHR ''/'' \<notin> set n \<and> n \<noteq> ''.'' \<and> n \<noteq> ''..'')"


section \<open>The file system, the clock and what lies outside the program\<close>

text \<open>
  The disk is an association list from normalised path to entry; an entry is a regular file or
  a directory, with the time of its last modification. The size that \<open>stat\<close> reports for an
  entry is the length of its content. The services work in three directories below the working
  directory (\<open>temp\<close>, \<open>output\<close>, \<open>uploads\<close>), which their constructors create; like every
  directory they are entries of the disk. The listing of a directory is the names of the
  entries directly inside it, files and directories alike.
\<close>

record disk_file =
  content :: string
  mtime :: int
  is_directory :: bool

type_synonym fs = "(string \<times> disk_file) list"

record world =
  files :: fs
  now :: int

datatype js_exn = Error_obj string | Thrown_other

text \<open>The error of a system call on a path, with the message that the platform gives it.\<close>

definition fs_error :: "string \<Rightarrow> string \<Rightarrow> string \<Rightarrow> js_exn" where
  "fs_error reason syscall p =
     Error_obj (reason @ '', '' @ syscall @ '' '' @ [CHR 0x27] @ p @ [CHR 0x27])"

definition ENOENT :: "string \<Rightarrow> string \<Rightarrow> js_exn" where
  "ENOENT syscall p = fs_error ''ENOENT: no such file or directory'' syscall p"

definition EISDIR :: "string \<Rightarrow> string \<Rightarrow> js_exn" where
  "EISDIR syscall p = fs_error ''EISDIR: illegal operation on a directory'' syscall p"


text \<open>
  What a run of the Python interpreter does is not decided by the program: the process either
  cannot be started (the constructor of \<open>PythonShell\<close> throws), never ends, or ends after a
  sequence of \<open>message\<close> events, a sequence of \<open>error\<close> events and the optional error passed to the
  \<open>end\<close> callback. Meanwhile it changes the disk as it likes.
\<close>

datatype py_run =
    Spawn_throws js_exn
  | Never_ends
  | Ends "string list" "string list" "string option"

text \<open>
  A value of a spreadsheet cell, as \<open>any\<close>. A finite number is \<open>m * 2 ^ e\<close> for two integers,
  kept as \<open>Num m e\<close>; the source asks a number only for its type, never for its value.
\<close>

datatype cell =
    Undefined
  | Null
  | Str string
  | Num int int
  | Bool bool
  | Date_obj

text \<open>
  What \<open>sheet_to_json\<close> with \<open>header: 1\<close> returns for a worksheet: no row at all, or a first
  row, which the source casts to \<open>string[]\<close> and which is kept here as the strings of that
  cast, followed by the data rows.
\<close>

datatype json_sheet = No_rows | Rows "string list" "cell list list"

text \<open>
  The environment gathers what the program calls and does not define: the working directory,
  the faults that the disk opposes to a write or to a removal (permissions, a full or read-only
  disk: they may depend on the state of the disk), the Python interpreter, the model providers
  (asked, under a model name, with the prompt that \<open>buildAnalysisPrompt\<close> renders from the
  query and the dataset; the answer is the text of the reply, or a throw), the spreadsheet
  reader (\<open>XLSX.readFile\<close> followed by \<open>sheet_to_json\<close> on the first sheet: it throws, finds no
  worksheet, or returns its rows), and two built-ins of the language, \<open>isNaN(Number(v))\<close> and
  \<open>isNaN(Date.parse(v))\<close>.
\<close>

record env =
  cwd :: string
  write_fault :: "string \<Rightarrow> world \<Rightarrow> js_exn option"
  unlink_fault :: "string \<Rightarrow> world \<Rightarrow> js_exn option"
  python :: "string \<Rightarrow> world \<Rightarrow> py_run \<times> world"
  provider :: "string \<Rightarrow> string \<Rightarrow> string list \<times> (string \<rightharpoonup> string) \<times> cell list list \<times> nat
                 \<Rightarrow> js_exn + string"
  xlsx_rows :: "string \<Rightarrow> js_exn + json_sheet option"
  number_is_nan :: "cell \<Rightarrow> bool"
  date_parse_is_nan :: "cell \<Rightarrow> bool"

definition statSync :: "string \<Rightarrow> world \<Rightarrow> disk_file option" where
  "statSync p w = map_of (files w) p"

definition existsSync :: "string \<Rightarrow> world \<Rightarrow> bool" where
  "existsSync p w = (statSync p w \<noteq> None)"

definition readFileSync :: "string \<Rightarrow> world \<Rightarrow> js_exn + string" where
  "readFileSync p w =
     (case statSync p w of
        None \<Rightarrow> Inl (ENOENT ''open'' p)
      | Some f \<Rightarrow> if is_directory f then Inl (Error_obj ''EISDIR: illegal operation on a directory, read'')
                  else Inr (content f))"

text \<open>
  \<open>unlinkSync\<close> removes a regular file. It throws on a path that is not there and on a
  directory, and where the disk refuses.
\<close>

definition unlinkSync :: "env \<Rightarrow> string \<Rightarrow> world \<Rightarrow> js_exn + world" where
  "unlinkSync e p w =
     (case unlink_fault e p w of
        Some x \<Rightarrow> Inl x
      | None \<Rightarrow>
         (case statSync p w of
            None \<Rightarrow> Inl (ENOENT ''unlink'' p)
          | Some f \<Rightarrow>
              if is_directory f then Inl (EISDIR ''unlink'' p)
              else Inr (w\<lparr>files := filter (\<lambda>entry. fst entry \<noteq> p) (files w)\<rparr>)))"

text \<open>
  \<open>writeFileSync\<close> creates the file or replaces its content. It throws on a directory, and
  where the disk refuses.
\<close>

definition writeFileSync :: "env \<Rightarrow> string \<Rightarrow> string \<Rightarrow> world \<Rightarrow> js_exn + world" where
  "writeFileSync e p d w =
     (case write_fault e p w of
        Some x \<Rightarrow> Inl x
      | None \<Rightarrow>
          if (case statSync p w of None \<Rightarrow> False | Some f \<Rightarrow> is_directory f)
          then Inl (EISDIR ''open'' p)
          else Inr (w\<lparr>files := (p, \<lparr>content = d, mtime = now w, is_directory = False\<rparr>)
                                  # filter (\<lambda>entry. fst entry \<noteq> p) (files w)\<rparr>))"

text \<open>
  The names that \<open>readdirSync\<close> returns for a directory given by its normalised path: the
  plain names \<open>n\<close> for which the disk has an entry at \<open>dir/n\<close>.
\<close>

definition child_name :: "string \<Rightarrow> string \<Rightarrow> string list" where
  "child_name dir p =
     (if prefix (dir @ ''/'') p
      then (let n = drop (length dir + 1) p in if plain n then [n] else [])
      else [])"

definition readdirSync :: "string \<Rightarrow> world \<Rightarrow> string list" where
  "readdirSync dir w = remdups (concat (map (\<lambda>entry. child_name dir (fst entry)) (files w)))"


section \<open>PythonSandboxService\<close>

datatype output_format = Png | Jpg | Svg | Html

fun format_string :: "output_format \<Rightarrow> string" where
  "format_string Png = ''png''"
| "format_string Jpg = ''jpg''"
| "format_string Svg = ''svg''"
| "format_string Html = ''html''"

record ChartGenerationRequest =
  pythonCode :: string
  datasetPath :: string
  outputFormat :: output_format

datatype chart_data = Html_text string | Metadata nat string string | Null_data

record PythonExecutionResult =
  success :: bool
  output' :: string
  error :: "string option"
  chartPath :: "string option"
  chartData :: "chart_data option"

definition tempDir :: "env \<Rightarrow> string" where
  "tempDir e = join (cwd e) ''temp''"

definition outputDir :: "env \<Rightarrow> string" where
  "outputDir e = join (cwd e) ''output''"

text \<open>
  The execution id is \<open>uuidv4()\<close>: 32 lower-case hexadecimal digits in groups of 8, 4, 4, 4
  and 12, with the version digit 4 and a variant digit among 8, 9, a, b. The generator is a
  library; the id it returns is an argument of the model.
\<close>

definition is_hex :: "char \<Rightarrow> bool" where
  "is_hex c = (c \<in> set ''0123456789abcdef'')"

definition uuid_char :: "char \<Rightarrow> char \<Rightarrow> bool" where
  "uuid_char k c =
     (if k = CHR ''x'' then is_hex c
      else if k = CHR ''y'' then c \<in> set ''89ab''
      else c = k)"

definition is_uuid :: "string \<Rightarrow> bool" where
  "is_uuid s = list_all2 uuid_char ''xxxxxxxx-xxxx-4xxx-yxxx-xxxxxxxxxxxx'' s"

definition pythonFile :: "env \<Rightarrow> string \<Rightarrow> string" where
  "pythonFile e executionId = join (tempDir e) (executionId @ ''.py'')"

definition outputFile :: "env \<Rightarrow> string \<Rightarrow> output_format \<Rightarrow> string" where
  "outputFile e executionId fmt = join (outputDir e) (executionId @ ''.'' @ format_string fmt)"

definition setupCode :: "string \<Rightarrow> string" where
  \<open>setupCode dataset =
     ''\<newline>'' @ unlines
      [''import pandas as pd'',
       ''import numpy as np'',
       ''import matplotlib.pyplot as plt'',
       ''import seaborn as sns'',
       ''import plotly.express as px'',
       ''import plotly.graph_objects as go'',
       ''import warnings'',
       ''warnings.filterwarnings('ignore')'',
       '''',
       ''# Set style for better-looking plots'',
       ''plt.style.use('default')'',
       ''sns.set_palette("husl")'',
       '''',
       ''# Load the dataset'',
       ''try:'',
       ''    df = pd.read_csv('' @ [CHR 0x27] @ dataset @ [CHR 0x27] @ '')'',
       ''    print(f"Dataset loaded successfully with {len(df)} rows and {len(df.columns)} columns")'',
       ''    print(f"Columns: {list(df.columns)}")'',
       ''    print(f"Data types: {df.dtypes.to_dict()}")'',
       ''    print("'' @ [CHR 0x5C] @ ''nFirst few rows:")'',
       ''    print(df.head())'',
       ''except Exception as e:'',
       ''    print(f"Error loading dataset: {e}")'',
       ''    exit(1)'',
       '''',
       ''# Set figure size for better quality'',
       ''plt.rcParams['figure.figsize'] = (12, 8)'',
       ''plt.rcParams['figure.dpi'] = 300'',
       '''']\<close>

definition cleanupCode :: "string \<Rightarrow> string \<Rightarrow> string" where
  \<open>cleanupCode outputPath fmt =
     ''\<newline>'' @ unlines
      [''# Save the plot'',
       ''try:'',
       ''    if format == 'html':'',
       ''        # For plotly charts, save as HTML'',
       ''        if 'fig' in locals() and hasattr(fig, 'write_html'):'',
       ''            fig.write_html('' @ [CHR 0x27] @ outputPath @ [CHR 0x27] @ '')'',
       ''        else:'',
       ''            # Convert matplotlib to plotly if needed'',
       ''            import plotly.tools as tls'',
       ''            plotly_fig = tls.mpl_to_plotly(plt.gcf())'',
       ''            plotly_fig.write_html('' @ [CHR 0x27] @ outputPath @ [CHR 0x27] @ '')'',
       ''    else:'',
       ''        # For static images'',
       ''        plt.tight_layout()'',
       ''        plt.savefig('' @ [CHR 0x27] @ outputPath @ [CHR 0x27] @ '', format=''
          @ [CHR 0x27] @ fmt @ [CHR 0x27] @ '', dpi=300, bbox_inches='tight')'',
       ''    '',
       ''    print(f"Chart saved successfully to: '' @ outputPath @ ''")'',
       ''except Exception as e:'',
       ''    print(f"Error saving chart: {e}")'',
       ''    exit(1)'',
       '''',
       ''print("'' @ [CHR 0x5C] @ ''n=== EXECUTION COMPLETED ===")'']\<close>

definition enhancePythonCode :: "string \<Rightarrow> string \<Rightarrow> string \<Rightarrow> string \<Rightarrow> string" where
  "enhancePythonCode originalCode dataset outputPath fmt =
     setupCode dataset @ originalCode @ cleanupCode outputPath fmt"

record run_result =
  run_success :: bool
  run_output :: string
  run_error :: "string option"

datatype 'a settled = Resolved 'a | Rejected js_exn

text \<open>
  \<open>runPythonFile\<close>: the promise resolves in the \<open>end\<close> callback and nowhere else. \<open>None\<close> is a
  promise that never settles.
\<close>

definition runPythonFile :: "env \<Rightarrow> string \<Rightarrow> world \<Rightarrow> (run_result settled \<times> world) option" where
  "runPythonFile e script w =
     (case python e script w of
        (Spawn_throws x, _) \<Rightarrow> Some (Rejected x, w)
      | (Never_ends, _) \<Rightarrow> None
      | (Ends messages errors end_err, w') \<Rightarrow>
          (let out = concat (map (\<lambda>m. m @ ''\<newline>'') messages);
               err = concat (map (\<lambda>m. m @ ''\<newline>'') errors)
                     @ (case end_err of None \<Rightarrow> [] | Some m \<Rightarrow> m @ ''\<newline>'')
           in Some (Resolved \<lparr>run_success = (err = []),
                              run_output = trim out,
                              run_error = (if trim err = [] then None else Some (trim err))\<rparr>,
                    w')))"

definition readChartData :: "string \<Rightarrow> output_format \<Rightarrow> world \<Rightarrow> chart_data" where
  "readChartData chart fmt w =
     (if fmt = Html
      then (case readFileSync chart w of Inl x \<Rightarrow> Null_data | Inr c \<Rightarrow> Html_text c)
      else (case statSync chart w of
              None \<Rightarrow> Null_data
            | Some f \<Rightarrow> Metadata (length (content f)) (format_string fmt) chart))"

definition caught :: "js_exn \<Rightarrow> PythonExecutionResult" where
  "caught x =
     \<lparr>success = False, output' = [],
      error = Some (case x of Error_obj m \<Rightarrow> m | Thrown_other \<Rightarrow> ''Unknown error occurred''),
      chartPath = None, chartData = None\<rparr>"

text \<open>The \<open>try\<close> block of \<open>executePythonCode\<close> with its \<open>catch\<close> clause.\<close>

definition execute_try :: "env \<Rightarrow> world \<Rightarrow> string \<Rightarrow> ChartGenerationRequest
    \<Rightarrow> (PythonExecutionResult \<times> world) option" where
  "execute_try e w executionId request =
     (let script = pythonFile e executionId;
          chart = outputFile e executionId (outputFormat request);
          enhancedCode = enhancePythonCode (pythonCode request) (datasetPath request) chart
                           (format_string (outputFormat request))
      in case writeFileSync e script enhancedCode w of
           Inl x \<Rightarrow> Some (caught x, w)
         | Inr w1 \<Rightarrow>
            (case runPythonFile e script w1 of
               None \<Rightarrow> None
             | Some (Rejected x, w2) \<Rightarrow> Some (caught x, w2)
             | Some (Resolved result, w2) \<Rightarrow>
                 (let chartExists = existsSync chart w2
                  in if run_success result \<and> chartExists
                     then Some (\<lparr>success = True, output' = run_output result, error = None,
                                 chartPath = Some chart,
                                 chartData = Some (readChartData chart (outputFormat request) w2)\<rparr>,
                                w2)
                     else Some (\<lparr>success = False, output' = run_output result,
                                 error = Some (or_default (run_error result)
                                                 ''Chart generation failed''),
                                 chartPath = None, chartData = None\<rparr>,
                                w2))))"

text \<open>
  The \<open>finally\<close> clause runs once the \<open>try\<close> block has produced its result. When its
  \<open>unlinkSync\<close> throws, the promise of \<open>executePythonCode\<close> is rejected with that error in place
  of the result. \<open>None\<close> is a promise that never settles.
\<close>

definition executePythonCode :: "env \<Rightarrow> world \<Rightarrow> string \<Rightarrow> ChartGenerationRequest
    \<Rightarrow> (PythonExecutionResult settled \<times> world) option" where
  "executePythonCode e w executionId request =
     (case execute_try e w executionId request of
        None \<Rightarrow> None
      | Some (r, w') \<Rightarrow>
          if existsSync (pythonFile e executionId) w'
          then (case unlinkSync e (pythonFile e executionId) w' of
                  Inl x \<Rightarrow> Some (Rejected x, w')
                | Inr w'' \<Rightarrow> Some (Resolved r, w''))
          else Some (Resolved r, w'))"





section \<open>The results routes\<close>

datatype body =
    Json_error string
  | Json_success string
  | File_bytes string nat string

type_synonym response = "nat \<times> body"

definition contentType_of :: "string \<Rightarrow> string" where
  "contentType_of ext =
     (if ext = ''png'' then ''image/png''
      else if ext = ''jpg'' \<or> ext = ''jpeg'' then ''image/jpeg''
      else if ext = ''svg'' then ''image/svg+xml''
      else if ext = ''html'' then ''text/html''
      else ''application/octet-stream'')"

text \<open>
  \<open>GET /charts/:filename\<close>. The path is \<open>join(process.cwd(), 'output', filename)\<close>, with the
  name as the request gives it. \<open>readFileSync\<close> throws on a directory, and the \<open>catch\<close> clause
  answers 500.
\<close>

definition get_chart :: "env \<Rightarrow> string \<Rightarrow> world \<Rightarrow> response" where
  "get_chart e filename w =
     (let chart = path_join [cwd e, ''output'', filename]
      in if \<not> existsSync chart w then (404, Json_error ''Chart not found'')
         else (case statSync chart w of
                 None \<Rightarrow> (500, Json_error ''Internal server error while serving chart'')
               | Some stats \<Rightarrow>
                  (case readFileSync chart w of
                     Inl x \<Rightarrow> (500, Json_error ''Internal server error while serving chart'')
                   | Inr fileBuffer \<Rightarrow>
                       (200, File_bytes (contentType_of (toLowerCase (last_segment filename)))
                               (length (content stats)) fileBuffer))))"

text \<open>\<open>DELETE /charts/:filename\<close>\<close>

definition delete_chart :: "env \<Rightarrow> string \<Rightarrow> world \<Rightarrow> response \<times> world" where
  "delete_chart e filename w =
     (let chart = path_join [cwd e, ''output'', filename]
      in if \<not> existsSync chart w then ((404, Json_error ''Chart not found''), w)
         else (case unlinkSync e chart w of
                 Inl x \<Rightarrow> ((500, Json_error ''Internal server error while deleting chart''), w)
               | Inr w' \<Rightarrow> ((200, Json_success ''Chart deleted successfully''), w')))"


section \<open>AIService: parsing the reply\<close>

text \<open>
  The four regular expressions of \<open>parseAIResponse\<close> have one shape,
  \<open>/TAG:\s*(.*?)(?=A:|B:|C:|$)/s\<close>, built from four kinds of node: a literal, the greedy
  \<open>\s*\<close>, the lazy group \<open>(.*?)\<close> (with the flag \<open>s\<close> the dot matches every code unit) and a
  lookahead over alternatives, where \<open>$\<close> without the flag \<open>m\<close> holds at the end of the input
  only.

  \<open>run\<close> is the backtracking matcher on a sequence of nodes at one position: \<open>cur\<close> is the text
  the open group has taken so far, \<open>g\<close> is group 1 (\<open>None\<close> while it has not taken part). A
  greedy node takes a code unit first and gives it back when the rest fails; a lazy one tries
  the rest first and takes a code unit when that fails.
\<close>

datatype alt = Word string | End_of_input

datatype rx = Lit string | Spaces | Lazy_group | Ahead "alt list"

fun alt_holds :: "alt \<Rightarrow> string \<Rightarrow> bool" where
  "alt_holds (Word t) s = prefix t s"
| "alt_holds End_of_input s = (s = [])"

fun run :: "rx list \<Rightarrow> string \<Rightarrow> string \<Rightarrow> string option \<Rightarrow> string option option" where
  "run [] s cur g = Some g"
| "run (Lit t # rs) s cur g =
     (if prefix t s then run rs (drop (length t) s) cur g else None)"
| "run (Spaces # rs) [] cur g = run rs [] cur g"
| "run (Spaces # rs) (c # s) cur g =
     (if js_space c
      then (case run (Spaces # rs) s cur g of
              Some m \<Rightarrow> Some m
            | None \<Rightarrow> run rs (c # s) cur g)
      else run rs (c # s) cur g)"
| "run (Lazy_group # rs) [] cur g = run rs [] [] (Some cur)"
| "run (Lazy_group # rs) (c # s) cur g =
     (case run rs (c # s) [] (Some cur) of
        Some m \<Rightarrow> Some m
      | None \<Rightarrow> run (Lazy_group # rs) s (cur @ [c]) g)"
| "run (Ahead alts # rs) s cur g =
     (if list_ex (\<lambda>a. alt_holds a s) alts then run rs s cur g else None)"

text \<open>
  \<open>String.prototype.match\<close> without the flag \<open>g\<close>: the first position, from the left, where the
  expression matches; \<open>None\<close> is \<open>null\<close>, and \<open>Some g\<close> is the match with its group 1.
\<close>

fun js_match :: "rx list \<Rightarrow> string \<Rightarrow> string option option" where
  "js_match rs [] = run rs [] [] None"
| "js_match rs (c # s) =
     (case run rs (c # s) [] None of
        Some m \<Rightarrow> Some m
      | None \<Rightarrow> js_match rs s)"

definition analysis_rx :: "rx list" where
  "analysis_rx =
     [Lit ''ANALYSIS:'', Spaces, Lazy_group,
      Ahead [Word ''CODE:'', Word ''VISUALIZATION_TYPE:'', Word ''EXPLANATION:'', End_of_input]]"

definition code_rx :: "rx list" where
  "code_rx =
     [Lit ''CODE:'', Spaces, Lazy_group,
      Ahead [Word ''ANALYSIS:'', Word ''VISUALIZATION_TYPE:'', Word ''EXPLANATION:'', End_of_input]]"

definition visualizationType_rx :: "rx list" where
  "visualizationType_rx =
     [Lit ''VISUALIZATION_TYPE:'', Spaces, Lazy_group,
      Ahead [Word ''ANALYSIS:'', Word ''CODE:'', Word ''EXPLANATION:'', End_of_input]]"

definition explanation_rx :: "rx list" where
  "explanation_rx =
     [Lit ''EXPLANATION:'', Spaces, Lazy_group,
      Ahead [Word ''ANALYSIS:'', Word ''CODE:'', Word ''VISUALIZATION_TYPE:'', End_of_input]]"

text \<open>\<open>m?.[1]?.trim() || d\<close>\<close>

definition group1_trim_or :: "string option option \<Rightarrow> string \<Rightarrow> string" where
  "group1_trim_or m d =
     or_default (case m of None \<Rightarrow> None | Some None \<Rightarrow> None | Some (Some g) \<Rightarrow> Some (trim g)) d"

record parsed_reply =
  analysis :: string
  pythonCode' :: string
  visualizationType :: string
  explanation :: string

definition parseAIResponse :: "string \<Rightarrow> parsed_reply" where
  \<open>parseAIResponse response =
     (let analysisMatch = js_match analysis_rx response;
          codeMatch = js_match code_rx response;
          visualizationTypeMatch = js_match visualizationType_rx response;
          explanationMatch = js_match explanation_rx response
      in \<lparr>analysis = group1_trim_or analysisMatch ''Analysis not provided'',
          pythonCode' = group1_trim_or codeMatch ''print("No code generated")'',
          visualizationType = group1_trim_or visualizationTypeMatch ''Unknown'',
          explanation = group1_trim_or explanationMatch ''Explanation not provided''\<rparr>)\<close>




subsection \<open>The sections as the specification words them\<close>

text \<open>
  The position of the first occurrence of a tag; the position of the nearest occurrence of one
  of the other tags in the text that follows, or the end of that text; the text in between,
  trimmed.
\<close>

definition first_occurrence :: "string \<Rightarrow> string \<Rightarrow> nat option" where
  "first_occurrence t s = find (\<lambda>i. prefix t (drop i s)) [0..<Suc (length s)]"

definition nearest_following :: "string list \<Rightarrow> string \<Rightarrow> nat" where
  "nearest_following others s =
     (case find (\<lambda>i. \<exists>t \<in> set others. prefix t (drop i s)) [0..<length s] of
        Some i \<Rightarrow> i
      | None \<Rightarrow> length s)"

definition section_text :: "string \<Rightarrow> string list \<Rightarrow> string \<Rightarrow> string option" where
  "section_text tag others r =
     (case first_occurrence tag r of
        None \<Rightarrow> None
      | Some i \<Rightarrow>
          (let rest = drop (i + length tag) r
           in Some (trim (take (nearest_following others rest) rest))))"

definition has_all_tags :: "string \<Rightarrow> bool" where
  "has_all_tags r =
     (js_includes r ''ANALYSIS:'' \<and> js_includes r ''CODE:''
      \<and> js_includes r ''VISUALIZATION_TYPE:'' \<and> js_includes r ''EXPLANATION:'')"


section \<open>FileProcessingService\<close>

record multer_file =
  mfilename :: string
  originalname :: string
  size' :: nat
  mimetype :: string

record DatasetInfo =
  dataset_id :: string
  filename :: string
  originalName :: string
  columns :: "string list"
  dataTypes :: "string \<rightharpoonup> string"
  rowCount :: nat
  sampleData :: "cell list list"
  filePath :: string
  uploadTime :: int
  fileSize :: nat

record FileUploadResult =
  upload_success :: bool
  datasetInfo :: "DatasetInfo option"
  upload_error :: "string option"

definition uploadDir :: "env \<Rightarrow> string" where
  "uploadDir e = join (cwd e) ''uploads''"

text \<open>
  \<open>path.extname\<close> on a name that does not end in a separator: from the last dot of the last
  component, unless that component has no dot, starts with its only dot, or is \<open>..\<close>.
\<close>

definition extname :: "string \<Rightarrow> string" where
  "extname p =
     (let base = rev (takeWhile (\<lambda>c. c \<noteq> CHR ''/'') (rev p));
          ext = rev (takeWhile (\<lambda>c. c \<noteq> CHR ''.'') (rev base))
      in if CHR ''.'' \<notin> set base \<or> base = ''..'' \<or> length ext + 1 = length base then []
         else CHR ''.'' # ext)"

fun decimal :: "nat \<Rightarrow> string" where
  "decimal n =
     (if n < 10 then [''0123456789'' ! n]
      else decimal (n div 10) @ [''0123456789'' ! (n mod 10)])"

declare decimal.simps [simp del]

text \<open>
  The name under which the upload middleware stores a file:
  \<open>`${uuidv4()}-${Date.now()}${extname(file.originalname)}`\<close>, and its filter on the extension.
\<close>

definition uniqueName :: "string \<Rightarrow> nat \<Rightarrow> string \<Rightarrow> string" where
  "uniqueName uuid t original = uuid @ ''-'' @ decimal t @ extname original"

definition fileFilter :: "string \<Rightarrow> bool" where
  "fileFilter original = (toLowerCase (extname original) \<in> set [''.csv'', ''.xlsx'', ''.xls''])"

text \<open>The loop of \<open>parseCSVLine\<close> over the code units of a line, and the push after it.\<close>

fun parseCSVLine_loop :: "string \<Rightarrow> string list \<Rightarrow> string \<Rightarrow> bool \<Rightarrow> string list" where
  "parseCSVLine_loop [] result current inQuotes = result @ [trim current]"
| "parseCSVLine_loop (char # rest) result current inQuotes =
     (if char = CHR 0x22 then parseCSVLine_loop rest result current (\<not> inQuotes)
      else if char = CHR '','' \<and> \<not> inQuotes
        then parseCSVLine_loop rest (result @ [trim current]) [] inQuotes
      else parseCSVLine_loop rest result (current @ [char]) inQuotes)"

definition parseCSVLine :: "string \<Rightarrow> string list" where
  "parseCSVLine line = parseCSVLine_loop line [] [] False"

text \<open>\<open>row[colIndex]\<close>: \<open>undefined\<close> beyond the end of the row.\<close>

definition at_index :: "cell list \<Rightarrow> nat \<Rightarrow> cell" where
  "at_index row i = (if i < length row then row ! i else Undefined)"

definition columnValues :: "nat \<Rightarrow> cell list list \<Rightarrow> cell list" where
  "columnValues colIndex dataRows =
     filter (\<lambda>val. val \<noteq> Null \<and> val \<noteq> Undefined \<and> val \<noteq> Str [])
       (map (\<lambda>row. at_index row colIndex) dataRows)"

text \<open>The body of the callback of \<open>headers.forEach\<close>: the type written under the header.\<close>

definition column_type :: "env \<Rightarrow> nat \<Rightarrow> cell list list \<Rightarrow> string" where
  "column_type e colIndex dataRows =
     (case columnValues colIndex dataRows of
        [] \<Rightarrow> ''string''
      | sampleValue # _ \<Rightarrow>
          if (case sampleValue of Num _ _ \<Rightarrow> True | _ \<Rightarrow> False) \<or> \<not> number_is_nan e sampleValue
          then ''number''
          else if sampleValue = Date_obj \<or> \<not> date_parse_is_nan e sampleValue
          then ''date''
          else ''string'')"

text \<open>
  \<open>dataTypes\<close> is a plain object, kept as the map of its own properties. The assignment
  \<open>dataTypes[header] = ...\<close> creates or overwrites the property \<open>header\<close>, except under the name
  \<open>__proto__\<close>, where the assignment of a string reaches the setter of \<open>Object.prototype\<close> and
  is ignored.
\<close>

definition inferDataTypes :: "env \<Rightarrow> string list \<Rightarrow> cell list list \<Rightarrow> (string \<rightharpoonup> string)" where
  "inferDataTypes e headers dataRows =
     foldl (\<lambda>types (header, colIndex).
              if header = ''__proto__'' then types
              else types(header \<mapsto> column_type e colIndex dataRows))
       Map.empty (zip headers [0..<length headers])"


subsection \<open>The inferred type as the specification words it\<close>

text \<open>
  The first non-empty value of a column, and the type that this value alone decides: number if
  it is a number or parses as one, otherwise date if it is a date or parses as one, otherwise
  string; string when the column has no non-empty value.
\<close>

definition first_non_empty :: "nat \<Rightarrow> cell list list \<Rightarrow> cell option" where
  "first_non_empty colIndex dataRows =
     find (\<lambda>v. v \<noteq> Null \<and> v \<noteq> Undefined \<and> v \<noteq> Str [])
       (map (\<lambda>row. at_index row colIndex) dataRows)"

definition type_of_first :: "env \<Rightarrow> cell option \<Rightarrow> string" where
  "type_of_first e first =
     (case first of
        None \<Rightarrow> ''string''
      | Some v \<Rightarrow>
          if (case v of Num _ _ \<Rightarrow> True | _ \<Rightarrow> False) \<or> \<not> number_is_nan e v then ''number''
          else if v = Date_obj \<or> \<not> date_parse_is_nan e v then ''date''
          else ''string'')"

definition message_or :: "js_exn \<Rightarrow> string \<Rightarrow> string" where
  "message_or x d = (case x of Error_obj m \<Rightarrow> m | Thrown_other \<Rightarrow> d)"

definition processCSVFile :: "env \<Rightarrow> string \<Rightarrow> multer_file \<Rightarrow> string \<Rightarrow> world \<Rightarrow> js_exn + DatasetInfo" where
  "processCSVFile e path file uuid w =
     (case readFileSync path w of
        Inl x \<Rightarrow> Inl x
      | Inr csvContent \<Rightarrow>
         (let lines = filter (\<lambda>line. trim line \<noteq> []) (split_on CHR ''\<newline>'' csvContent)
          in if length lines < 2
             then Inl (Error_obj ''CSV file must contain at least a header row and one data row'')
             else
              (let headers = parseCSVLine (hd lines);
                   dataRows = map parseCSVLine (tl lines);
                   validDataRows = filter (\<lambda>row. list_ex (\<lambda>cell. trim cell \<noteq> []) row) dataRows;
                   types = inferDataTypes e headers (map (map Str) validDataRows)
               in Inr \<lparr>dataset_id = uuid, filename = mfilename file,
                       originalName = originalname file, columns = headers, dataTypes = types,
                       rowCount = length validDataRows,
                       sampleData = map (map Str) (take 5 validDataRows),
                       filePath = path, uploadTime = now w, fileSize = size' file\<rparr>)))"

definition processExcelFile :: "env \<Rightarrow> string \<Rightarrow> multer_file \<Rightarrow> string \<Rightarrow> world \<Rightarrow> js_exn + DatasetInfo" where
  "processExcelFile e path file uuid w =
     (case (case readFileSync path w of
              Inl x \<Rightarrow> Inl x
            | Inr bytes \<Rightarrow>
               (case xlsx_rows e bytes of
                  Inl x \<Rightarrow> Inl x
                | Inr None \<Rightarrow> Inl (Error_obj ''No worksheet found in Excel file'')
                | Inr (Some No_rows) \<Rightarrow>
                    Inl (Error_obj ''Excel file must contain at least a header row and one data row'')
                | Inr (Some (Rows headers dataRows)) \<Rightarrow>
                    if 1 + length dataRows < 2
                    then Inl (Error_obj ''Excel file must contain at least a header row and one data row'')
                    else
                     (let validDataRows =
                            filter (\<lambda>row. list_ex (\<lambda>cell. cell \<noteq> Null \<and> cell \<noteq> Undefined
                                                             \<and> cell \<noteq> Str []) row) dataRows;
                          types = inferDataTypes e headers validDataRows
                      in Inr \<lparr>dataset_id = uuid, filename = mfilename file,
                              originalName = originalname file, columns = headers,
                              dataTypes = types, rowCount = length validDataRows,
                              sampleData = take 5 validDataRows,
                              filePath = path, uploadTime = now w, fileSize = size' file\<rparr>))) of
        Inl x \<Rightarrow> Inl (Error_obj (''Excel processing failed: '' @ message_or x ''Unknown error''))
      | Inr info \<Rightarrow> Inr info)"

text \<open>
  \<open>processUploadedFile\<close>: a throw of the processing is turned into a result by the \<open>catch\<close>
  clause, which first removes the file; a throw of that \<open>unlinkSync\<close> leaves the function
  (\<open>Inl\<close>).
\<close>

definition processUploadedFile :: "env \<Rightarrow> world \<Rightarrow> multer_file \<Rightarrow> string
    \<Rightarrow> (js_exn + FileUploadResult) \<times> world" where
  "processUploadedFile e w file uuid =
     (let path = join (uploadDir e) (mfilename file)
      in case (case statSync path w of
                 None \<Rightarrow> Inl (ENOENT ''stat'' path)
               | Some fileStats \<Rightarrow>
                   if mimetype file = ''text/csv''
                      \<or> toLowerCase (extname (originalname file)) = ''.csv''
                   then processCSVFile e path file uuid w
                   else processExcelFile e path file uuid w) of
           Inr info \<Rightarrow>
             (Inr \<lparr>upload_success = True, datasetInfo = Some info, upload_error = None\<rparr>, w)
         | Inl x \<Rightarrow>
             (let failure = \<lparr>upload_success = False, datasetInfo = None,
                             upload_error = Some (message_or x ''File processing failed'')\<rparr>
              in if existsSync path w
                 then (case unlinkSync e path w of
                         Inl y \<Rightarrow> (Inl y, w)
                       | Inr w' \<Rightarrow> (Inr failure, w'))
                 else (Inr failure, w)))"

definition getMimeType :: "string \<Rightarrow> string" where
  "getMimeType name =
     (let ext = toLowerCase (extname name)
      in if ext = ''.csv'' then ''text/csv''
         else if ext = ''.xlsx''
           then ''application/vnd.openxmlformats-officedocument.spreadsheetml.sheet''
         else if ext = ''.xls'' then ''application/vnd.ms-excel''
         else ''application/octet-stream'')"

text \<open>
  \<open>getDatasetInfo\<close>: the first name of the listing that contains the id is processed again, as
  an upload of its own, and the loop returns there. Every throw, of \<open>readdirSync\<close> on a path
  that is not a directory as of the rest, ends in \<open>null\<close>.
\<close>

definition getDatasetInfo :: "env \<Rightarrow> world \<Rightarrow> string \<Rightarrow> string \<Rightarrow> DatasetInfo option \<times> world" where
  "getDatasetInfo e w datasetId uuid =
     (if (case statSync (uploadDir e) w of None \<Rightarrow> True | Some d \<Rightarrow> \<not> is_directory d)
      then (None, w)
      else
       (case find (\<lambda>file. js_includes file datasetId) (readdirSync (uploadDir e) w) of
          None \<Rightarrow> (None, w)
        | Some file \<Rightarrow>
           (case statSync (join (uploadDir e) file) w of
              None \<Rightarrow> (None, w)
            | Some stats \<Rightarrow>
               (let mockFile = \<lparr>mfilename = file, originalname = file,
                                size' = length (content stats), mimetype = getMimeType file\<rparr>
                in case processUploadedFile e w mockFile uuid of
                     (Inl x, w') \<Rightarrow> (None, w')
                   | (Inr result, w') \<Rightarrow> (datasetInfo result, w')))))"


section \<open>The analysis route\<close>

record visualize_body =
  query :: "string option"
  datasetId :: "string option"
  aiModel :: "string option"
  requestedFormat :: "output_format option"






section \<open>Auxiliary notions of the proofs\<close>

text \<open>The text up to the first position where one of the alternatives holds.\<close>

fun scan :: "alt list \<Rightarrow> string \<Rightarrow> string" where
  "scan alts [] = []"
| "scan alts (c # s) = (if list_ex (\<lambda>a. alt_holds a (c # s)) alts then [] else c # scan alts s)"

definition tags_ok :: "string list \<Rightarrow> bool" where
  "tags_ok others = (\<forall>t \<in> set others. t \<noteq> [] \<and> \<not> js_space (hd t))"


text \<open>The normal form of a directory, up to and with the separator before a name in it.\<close>

definition dirpart :: "string \<Rightarrow> string" where
  "dirpart d =
     (if d \<noteq> [] \<and> hd d = CHR ''/'' then ''/'' else [])
     @ concat (map (\<lambda>s. s @ ''/'') (resolve (d \<noteq> [] \<and> hd d = CHR ''/'') (segments d)))"


text \<open>
  The run of \<open>executePythonCode\<close> reports clean completion: the script was written and the
  promise of \<open>runPythonFile\<close> resolved with \<open>success\<close> true.
\<close>

definition clean_run :: "env \<Rightarrow> world \<Rightarrow> string \<Rightarrow> ChartGenerationRequest \<Rightarrow> bool" where
  "clean_run e w executionId request =
     (case writeFileSync e (pythonFile e executionId)
             (enhancePythonCode (pythonCode request) (datasetPath request)
                (outputFile e executionId (outputFormat request))
                (format_string (outputFormat request))) w of
        Inl x \<Rightarrow> False
      | Inr w0 \<Rightarrow>
         (case runPythonFile e (pythonFile e executionId) w0 of
            Some (Resolved result, w1) \<Rightarrow> run_success result
          | _ \<Rightarrow> False))"


section \<open>An example installation\<close>

text \<open>
  A working directory \<open>/app\<close> with its three directories, a disk without faults, two execution
  ids, and two behaviours of the interpreter: a script that ends cleanly and saves nothing, and
  a script that saves its chart and then leaves with exit code 1.
\<close>

definition demo_id :: string where
  "demo_id = ''3f2b8c1e-5d4a-4f6b-9a7c-0e1d2c3b4a59''"

definition demo_id' :: string where
  "demo_id' = ''7c9e6679-7425-40de-944b-e07fc1f90ae7''"

definition py_no_chart :: "string \<Rightarrow> world \<Rightarrow> py_run \<times> world" where
  "py_no_chart script w = (Ends [''=== EXECUTION COMPLETED ===''] [] None, w)"


definition demo_number_is_nan :: "cell \<Rightarrow> bool" where
  "demo_number_is_nan v =
     (case v of Str s \<Rightarrow> \<not> (s \<noteq> [] \<and> list_all (\<lambda>c. c \<in> set ''0123456789'') s)
              | Num _ _ \<Rightarrow> False | _ \<Rightarrow> True)"

definition demo_env :: "(string \<Rightarrow> world \<Rightarrow> py_run \<times> world) \<Rightarrow> env" where
  "demo_env py =
     \<lparr>cwd = ''/app'', write_fault = (\<lambda>p w. None), unlink_fault = (\<lambda>p w. None), python = py,
      provider = (\<lambda>m q d. Inr ''ANALYSIS: sales by region CODE: df.plot() VISUALIZATION_TYPE: bar EXPLANATION: totals''),
      xlsx_rows = (\<lambda>c. Inr None),
      number_is_nan = demo_number_is_nan,
      date_parse_is_nan = (\<lambda>v. v \<noteq> Str ''2024-01-15'')\<rparr>"

definition demo_request :: ChartGenerationRequest where
  "demo_request = \<lparr>pythonCode = ''df.plot()'', datasetPath = ''/app/uploads/d.csv'', outputFormat = Png\<rparr>"

definition demo_dir :: disk_file where
  "demo_dir = \<lparr>content = [], mtime = 0, is_directory = True\<rparr>"

definition demo_world :: world where
  "demo_world =
     \<lparr>files = [(''/app/temp'', demo_dir), (''/app/output'', demo_dir), (''/app/uploads'', demo_dir)],
      now = 1000\<rparr>"

text \<open>
  Two states of the store at time 1000: a script and a chart older than 500, and a chart
  younger than that; and the same with a directory older than 500 in the output directory,
  listed before the old chart.
\<close>

definition demo_store :: world where
  "demo_store =
     \<lparr>files = [(''/app/temp'', demo_dir), (''/app/output'', demo_dir),
               (''/app/temp/a.py'', \<lparr>content = ''s'', mtime = 0, is_directory = False\<rparr>),
               (''/app/output/old.png'', \<lparr>content = ''o'', mtime = 499, is_directory = False\<rparr>),
               (''/app/output/new.png'', \<lparr>content = ''n'', mtime = 900, is_directory = False\<rparr>)],
      now = 1000\<rparr>"


text \<open>
  An upload stored by the middleware under the second id, with its file on disk, and a request
  to the analysis route that names the dataset by that id.
\<close>

definition demo_stored :: string where
  "demo_stored = ''7c9e6679-7425-40de-944b-e07fc1f90ae7-1700000000000.csv''"

definition demo_csv :: disk_file where
  "demo_csv =
     \<lparr>content = ''Region,Sales\<newline>North,10\<newline>South,20\<newline>'', mtime = 1000,
      is_directory = False\<rparr>"

definition demo_uploads :: world where
  "demo_uploads =
     \<lparr>files = [(''/app/temp'', demo_dir), (''/app/output'', demo_dir), (''/app/uploads'', demo_dir),
               (''/app/uploads/7c9e6679-7425-40de-944b-e07fc1f90ae7-1700000000000.csv'', demo_csv)],
      now = 2000\<rparr>"

definition demo_upload :: multer_file where
  "demo_upload =
     \<lparr>mfilename = ''7c9e6679-7425-40de-944b-e07fc1f90ae7-1700000000000.csv'',
      originalname = ''sales.csv'', size' = 31, mimetype = ''text/csv''\<rparr>"



section \<open>The matcher computes the sections\<close>

lemma run_lazy_ahead:
  "End_of_input \<in> set alts \<Longrightarrow> run [Lazy_group, Ahead alts] s cur g = Some (Some (cur @ scan alts s))"
proof (induction s arbitrary: cur g)
  case Nil
  then show ?case by (auto simp: list_ex_iff intro!: bexI[of _ End_of_input])
next
  case (Cons c s)
  then show ?case by simp
qed

lemma run_spaces_lazy_ahead:
  "End_of_input \<in> set alts \<Longrightarrow>
   run [Spaces, Lazy_group, Ahead alts] s cur g = Some (Some (cur @ scan alts (dropWhile js_space s)))"
proof (induction s arbitrary: cur g)
  case Nil
  then show ?case by (auto simp: list_ex_iff intro!: bexI[of _ End_of_input])
next
  case (Cons c s)
  then show ?case by (simp add: run_lazy_ahead)
qed

lemma run_section:
  "End_of_input \<in> set alts \<Longrightarrow>
   run [Lit t, Spaces, Lazy_group, Ahead alts] s cur g =
     (if prefix t s then Some (Some (cur @ scan alts (dropWhile js_space (drop (length t) s)))) else None)"
  by (simp add: run_spaces_lazy_ahead)

lemma find_upt_Suc:
  "find P [0..<Suc n] = (if P 0 then Some 0 else map_option Suc (find (\<lambda>i. P (Suc i)) [0..<n]))"
proof -
  have m: "\<And>xs. find P (map Suc xs) = map_option Suc (find (\<lambda>i. P (Suc i)) xs)"
    subgoal for xs by (induction xs) auto
    done
  have "[0..<Suc n] = 0 # map Suc [0..<n]"
    by (simp add: upt_conv_Cons map_Suc_upt del: upt_Suc)
  then show ?thesis using m by simp
qed

lemma first_occurrence_Nil: "first_occurrence t [] = (if t = [] then Some 0 else None)"
  by (simp add: first_occurrence_def)

lemma first_occurrence_Cons:
  "first_occurrence t (c # s) =
     (if prefix t (c # s) then Some 0 else map_option Suc (first_occurrence t s))"
  unfolding first_occurrence_def by (subst find_upt_Suc) simp

lemma js_match_section:
  assumes "End_of_input \<in> set alts" "t \<noteq> []"
  shows "js_match [Lit t, Spaces, Lazy_group, Ahead alts] s =
     (case first_occurrence t s of
        None \<Rightarrow> None
      | Some i \<Rightarrow> Some (Some (scan alts (dropWhile js_space (drop (i + length t) s)))))"
  using assms
proof (induction s)
  case Nil
  then show ?case by (simp add: first_occurrence_Nil run_spaces_lazy_ahead)
next
  case (Cons c s)
  then show ?case
    by (simp add: first_occurrence_Cons run_spaces_lazy_ahead split: option.splits)
qed


lemma trim_space_Cons: "js_space c \<Longrightarrow> trim (c # s) = trim s"
  by (simp add: trim_def)

lemma holds_words:
  "list_ex (\<lambda>a. alt_holds a (c # s)) (map Word others @ [End_of_input])
     = (\<exists>t \<in> set others. prefix t (c # s))"
  by (auto simp: list_ex_iff)

lemma scan_take:
  "scan (map Word others @ [End_of_input]) s = take (nearest_following others s) s"
proof (induction s)
  case Nil
  then show ?case by (simp add: nearest_following_def)
next
  case (Cons c s)
  have nf: "nearest_following others (c # s) =
      (if \<exists>t \<in> set others. prefix t (c # s) then 0 else Suc (nearest_following others s))"
    unfolding nearest_following_def
    by (simp add: find_upt_Suc del: upt_Suc split: option.splits)
  show ?case using Cons by (simp only: scan.simps holds_words nf) simp
qed

lemma no_tag_at_space:
  "tags_ok others \<Longrightarrow> js_space c \<Longrightarrow> \<not> (\<exists>t \<in> set others. prefix t (c # s))"
  by (auto simp: tags_ok_def prefix_Cons)

lemma trim_scan_dropWhile:
  "tags_ok others \<Longrightarrow>
   trim (scan (map Word others @ [End_of_input]) (dropWhile js_space s))
     = trim (scan (map Word others @ [End_of_input]) s)"
proof (induction s)
  case Nil
  then show ?case by simp
next
  case (Cons c s)
  show ?case
  proof (cases "js_space c")
    case True
    with Cons.prems have "\<not> (\<exists>t \<in> set others. prefix t (c # s))"
      by (simp add: no_tag_at_space)
    with True Cons show ?thesis
      by (simp only: scan.simps holds_words dropWhile.simps if_True if_False trim_space_Cons)
  next
    case False
    then show ?thesis by simp
  qed
qed

lemma trim_section:
  "tags_ok others \<Longrightarrow>
   trim (scan (map Word others @ [End_of_input]) (dropWhile js_space s))
     = trim (take (nearest_following others s) s)"
  using trim_scan_dropWhile[of others s] by (simp only: scan_take[symmetric])

lemma js_match_section_text:
  assumes "tags_ok others" "t \<noteq> []"
  shows "group1_trim_or (js_match [Lit t, Spaces, Lazy_group, Ahead (map Word others @ [End_of_input])] r) d
           = or_default (section_text t others r) d"
proof -
  have e: "End_of_input \<in> set (map Word others @ [End_of_input])" by simp
  show ?thesis
    unfolding js_match_section[OF e assms(2)] group1_trim_or_def section_text_def
    by (simp add: trim_section[OF assms(1)] Let_def split: option.splits)
qed

lemma first_occurrence_None: "(first_occurrence t r = None) = (\<not> js_includes r t)"
  by (induction r) (auto simp: first_occurrence_Nil first_occurrence_Cons)


section \<open>The sections of a reply\<close>

lemma tags_ok_analysis: "tags_ok [''CODE:'', ''VISUALIZATION_TYPE:'', ''EXPLANATION:'']"
  and tags_ok_code: "tags_ok [''ANALYSIS:'', ''VISUALIZATION_TYPE:'', ''EXPLANATION:'']"
  and tags_ok_visualizationType: "tags_ok [''ANALYSIS:'', ''CODE:'', ''EXPLANATION:'']"
  and tags_ok_explanation: "tags_ok [''ANALYSIS:'', ''CODE:'', ''VISUALIZATION_TYPE:'']"
  by (simp_all add: tags_ok_def js_space_def)

lemma analysis_field:
  "analysis (parseAIResponse r) =
     or_default (section_text ''ANALYSIS:'' [''CODE:'', ''VISUALIZATION_TYPE:'', ''EXPLANATION:''] r)
       ''Analysis not provided''"
  using js_match_section_text[OF tags_ok_analysis, of "''ANALYSIS:''" r]
  by (simp add: parseAIResponse_def analysis_rx_def)

lemma code_field:
  \<open>pythonCode' (parseAIResponse r) =
     or_default (section_text ''CODE:'' [''ANALYSIS:'', ''VISUALIZATION_TYPE:'', ''EXPLANATION:''] r)
       ''print("No code generated")''\<close>
  using js_match_section_text[OF tags_ok_code, of "''CODE:''" r]
  by (simp add: parseAIResponse_def code_rx_def)

lemma visualizationType_field:
  "visualizationType (parseAIResponse r) =
     or_default (section_text ''VISUALIZATION_TYPE:'' [''ANALYSIS:'', ''CODE:'', ''EXPLANATION:''] r)
       ''Unknown''"
  using js_match_section_text[OF tags_ok_visualizationType, of "''VISUALIZATION_TYPE:''" r]
  by (simp add: parseAIResponse_def visualizationType_rx_def)

lemma explanation_field:
  "explanation (parseAIResponse r) =
     or_default (section_text ''EXPLANATION:'' [''ANALYSIS:'', ''CODE:'', ''VISUALIZATION_TYPE:''] r)
       ''Explanation not provided''"
  using js_match_section_text[OF tags_ok_explanation, of "''EXPLANATION:''" r]
  by (simp add: parseAIResponse_def explanation_rx_def)

lemma section_text_None: "(section_text t others r = None) = (\<not> js_includes r t)"
  by (simp add: section_text_def first_occurrence_None[symmetric] Let_def split: option.splits)

lemma section_text_missing: "\<not> js_includes r t \<Longrightarrow> section_text t others r = None"
  by (simp add: section_text_None)

text \<open>
  C4, as amended. For a reply that contains the four tags, in any order, each field of
  \<open>parseAIResponse\<close> is the trimmed text between the first occurrence of its tag and the nearest
  following occurrence of one of the other three tags, or the end of the reply when none
  follows, provided that this text is not empty; when it is empty, the field is its
  placeholder.
\<close>

theorem parseAIResponse_sections:
  assumes "has_all_tags r"
  shows "\<exists>a c v x.
      section_text ''ANALYSIS:'' [''CODE:'', ''VISUALIZATION_TYPE:'', ''EXPLANATION:''] r = Some a
    \<and> section_text ''CODE:'' [''ANALYSIS:'', ''VISUALIZATION_TYPE:'', ''EXPLANATION:''] r = Some c
    \<and> section_text ''VISUALIZATION_TYPE:'' [''ANALYSIS:'', ''CODE:'', ''EXPLANATION:''] r = Some v
    \<and> section_text ''EXPLANATION:'' [''ANALYSIS:'', ''CODE:'', ''VISUALIZATION_TYPE:''] r = Some x
    \<and> analysis (parseAIResponse r) = (if a = [] then ''Analysis not provided'' else a)
    \<and> pythonCode' (parseAIResponse r) = (if c = [] then ''print(\"No code generated\")'' else c)
    \<and> visualizationType (parseAIResponse r) = (if v = [] then ''Unknown'' else v)
    \<and> explanation (parseAIResponse r) = (if x = [] then ''Explanation not provided'' else x)"
proof -
  from assms obtain a c v x where
    s: "section_text ''ANALYSIS:'' [''CODE:'', ''VISUALIZATION_TYPE:'', ''EXPLANATION:''] r = Some a"
       "section_text ''CODE:'' [''ANALYSIS:'', ''VISUALIZATION_TYPE:'', ''EXPLANATION:''] r = Some c"
       "section_text ''VISUALIZATION_TYPE:'' [''ANALYSIS:'', ''CODE:'', ''EXPLANATION:''] r = Some v"
       "section_text ''EXPLANATION:'' [''ANALYSIS:'', ''CODE:'', ''VISUALIZATION_TYPE:''] r = Some x"
    unfolding has_all_tags_def by (metis section_text_None not_None_eq)
  show ?thesis
    unfolding analysis_field code_field visualizationType_field explanation_field s
    by (simp add: or_default_def)
qed

theorem parseAIResponse_sections_witness:
  \<open>has_all_tags ''CODE: x = 1 ANALYSIS: a b  EXPLANATION:  VISUALIZATION_TYPE: bar''
   \<and> analysis (parseAIResponse ''CODE: x = 1 ANALYSIS: a b  EXPLANATION:  VISUALIZATION_TYPE: bar'')
       = ''a b''
   \<and> pythonCode' (parseAIResponse ''CODE: x = 1 ANALYSIS: a b  EXPLANATION:  VISUALIZATION_TYPE: bar'')
       = ''x = 1''
   \<and> visualizationType
         (parseAIResponse ''CODE: x = 1 ANALYSIS: a b  EXPLANATION:  VISUALIZATION_TYPE: bar'')
       = ''bar''
   \<and> explanation (parseAIResponse ''CODE: x = 1 ANALYSIS: a b  EXPLANATION:  VISUALIZATION_TYPE: bar'')
       = ''Explanation not provided''\<close>
proof -
  let ?r = "''CODE: x = 1 ANALYSIS: a b  EXPLANATION:  VISUALIZATION_TYPE: bar''"
  have h: "has_all_tags ?r"
    by (simp add: has_all_tags_def)
  have a: "section_text ''ANALYSIS:'' [''CODE:'', ''VISUALIZATION_TYPE:'', ''EXPLANATION:''] ?r
             = Some ''a b''"
    by code_simp
  have c: "section_text ''CODE:'' [''ANALYSIS:'', ''VISUALIZATION_TYPE:'', ''EXPLANATION:''] ?r
             = Some ''x = 1''"
    by code_simp
  have v: "section_text ''VISUALIZATION_TYPE:'' [''ANALYSIS:'', ''CODE:'', ''EXPLANATION:''] ?r
             = Some ''bar''"
    by code_simp
  have x: "section_text ''EXPLANATION:'' [''ANALYSIS:'', ''CODE:'', ''VISUALIZATION_TYPE:''] ?r
             = Some []"
    by code_simp
  from parseAIResponse_sections[OF h] show ?thesis
    unfolding a c v x using h by simp
qed

text \<open>
  C4, as stated, fails where a section is empty: the reply below contains the four tags,
  the text between \<open>ANALYSIS:\<close> and the following \<open>CODE:\<close> is empty once trimmed, and the field is
  the placeholder, not that text.
\<close>

theorem empty_section_counterexample:
  "has_all_tags ''ANALYSIS: CODE: x VISUALIZATION_TYPE: bar EXPLANATION: e''
   \<and> section_text ''ANALYSIS:'' [''CODE:'', ''VISUALIZATION_TYPE:'', ''EXPLANATION:'']
        ''ANALYSIS: CODE: x VISUALIZATION_TYPE: bar EXPLANATION: e'' = Some []
   \<and> analysis (parseAIResponse ''ANALYSIS: CODE: x VISUALIZATION_TYPE: bar EXPLANATION: e'')
        = ''Analysis not provided''"
proof -
  have "has_all_tags ''ANALYSIS: CODE: x VISUALIZATION_TYPE: bar EXPLANATION: e''"
    by (simp add: has_all_tags_def)
  moreover have "section_text ''ANALYSIS:'' [''CODE:'', ''VISUALIZATION_TYPE:'', ''EXPLANATION:'']
        ''ANALYSIS: CODE: x VISUALIZATION_TYPE: bar EXPLANATION: e'' = Some []"
    by code_simp
  moreover have
    "analysis (parseAIResponse ''ANALYSIS: CODE: x VISUALIZATION_TYPE: bar EXPLANATION: e'')
        = ''Analysis not provided''"
    by code_simp
  ultimately show ?thesis by simp
qed

text \<open>
  C5. \<open>parseAIResponse\<close> is a total function of the reply: nothing in it throws, whatever the
  reply. A field whose tag does not occur in the reply, or whose section is empty once
  trimmed, is its placeholder.
\<close>

theorem parseAIResponse_placeholders:
  \<open>(\<not> js_includes r ''ANALYSIS:''
      \<or> section_text ''ANALYSIS:'' [''CODE:'', ''VISUALIZATION_TYPE:'', ''EXPLANATION:''] r = Some []
     \<longrightarrow> analysis (parseAIResponse r) = ''Analysis not provided'')
   \<and> (\<not> js_includes r ''CODE:''
      \<or> section_text ''CODE:'' [''ANALYSIS:'', ''VISUALIZATION_TYPE:'', ''EXPLANATION:''] r = Some []
     \<longrightarrow> pythonCode' (parseAIResponse r) = ''print("No code generated")'')
   \<and> (\<not> js_includes r ''VISUALIZATION_TYPE:''
      \<or> section_text ''VISUALIZATION_TYPE:'' [''ANALYSIS:'', ''CODE:'', ''EXPLANATION:''] r = Some []
     \<longrightarrow> visualizationType (parseAIResponse r) = ''Unknown'')
   \<and> (\<not> js_includes r ''EXPLANATION:''
      \<or> section_text ''EXPLANATION:'' [''ANALYSIS:'', ''CODE:'', ''VISUALIZATION_TYPE:''] r = Some []
     \<longrightarrow> explanation (parseAIResponse r) = ''Explanation not provided'')\<close>
  unfolding analysis_field code_field visualizationType_field explanation_field
  by (auto simp: or_default_def section_text_missing)

theorem parseAIResponse_placeholders_witness:
  \<open>\<not> js_includes ''Sorry, I cannot help with that.'' ''ANALYSIS:''
   \<and> \<not> js_includes ''Sorry, I cannot help with that.'' ''CODE:''
   \<and> \<not> js_includes ''Sorry, I cannot help with that.'' ''VISUALIZATION_TYPE:''
   \<and> \<not> js_includes ''Sorry, I cannot help with that.'' ''EXPLANATION:''
   \<and> parseAIResponse ''Sorry, I cannot help with that.''
       = \<lparr>analysis = ''Analysis not provided'', pythonCode' = ''print("No code generated")'',
          visualizationType = ''Unknown'', explanation = ''Explanation not provided''\<rparr>\<close>
proof -
  have h: "\<not> js_includes ''Sorry, I cannot help with that.'' ''ANALYSIS:''"
          "\<not> js_includes ''Sorry, I cannot help with that.'' ''CODE:''"
          "\<not> js_includes ''Sorry, I cannot help with that.'' ''VISUALIZATION_TYPE:''"
          "\<not> js_includes ''Sorry, I cannot help with that.'' ''EXPLANATION:''"
    by simp_all
  from parseAIResponse_placeholders[of "''Sorry, I cannot help with that.''"] h
  show ?thesis by simp
qed


section \<open>Joining paths\<close>

lemma split_on_nonempty [simp]: "split_on d s \<noteq> []"
  by (induction s) (auto split: list.splits)

lemma split_on_no_sep: "d \<notin> set s \<Longrightarrow> split_on d s = [s]"
  by (induction s) auto

lemma split_on_append_sep: "split_on d (a @ d # b) = split_on d a @ split_on d b"
proof (induction a)
  case Nil
  then show ?case by simp
next
  case (Cons c a)
  obtain x xs where x: "split_on d a = x # xs"
    by (cases "split_on d a") auto
  with Cons show ?case by simp
qed

lemma split_on_pieces: "x \<in> set (split_on d s) \<Longrightarrow> d \<notin> set x"
proof (induction s arbitrary: x)
  case Nil
  then show ?case by simp
next
  case (Cons c s)
  obtain y ys where y: "split_on d s = y # ys"
    by (cases "split_on d s") auto
  with Cons show ?case by (auto split: if_splits)
qed

lemma segments_append_sep: "segments (a @ CHR ''/'' # b) = segments a @ segments b"
  by (simp add: segments_def split_on_append_sep)

lemma segments_plain: "plain n \<Longrightarrow> segments n = [n]"
  by (simp add: segments_def plain_def split_on_no_sep)

lemma segments_Nil [simp]: "segments [] = []"
  by (simp add: segments_def)

lemma segments_pieces: "x \<in> set (segments p) \<Longrightarrow> x \<noteq> [] \<and> CHR ''/'' \<notin> set x"
  by (auto simp: segments_def dest: split_on_pieces)


lemma step_normal:
  "s \<noteq> ''.'' \<Longrightarrow> s \<noteq> ''..'' \<Longrightarrow> step a (k, ns) s = (k, ns @ [s])"
  by simp

lemma resolve_snoc:
  assumes "s \<noteq> ''.''" "s \<noteq> ''..''"
  shows "resolve a (xs @ [s]) = resolve a xs @ [s]"
proof -
  obtain k ns where f: "foldl (step a) (0, []) xs = (k, ns)"
    by (cases "foldl (step a) (0, []) xs")
  with assms show ?thesis by (simp add: resolve_def)
qed

lemma slashed_snoc: "slashed (xs @ [s]) = concat (map (\<lambda>x. x @ ''/'') xs) @ s"
  by (induction xs rule: slashed.induct) auto

text \<open>What the fold keeps: no dot segment among the names, no way above a root.\<close>

lemma foldl_step_invariant:
  assumes "foldl (step a) (k0, ns0) ss = (k, ns)"
      and "''.'' \<notin> set ns0" "''..'' \<notin> set ns0" "a \<longrightarrow> k0 = 0"
  shows "''.'' \<notin> set ns \<and> ''..'' \<notin> set ns \<and> (a \<longrightarrow> k = 0)"
  using assms
proof (induction ss arbitrary: k0 ns0)
  case Nil
  then show ?case by simp
next
  case (Cons s ss)
  obtain k1 ns1 where s1: "step a (k0, ns0) s = (k1, ns1)"
    by (cases "step a (k0, ns0) s")
  have "''.'' \<notin> set ns1 \<and> ''..'' \<notin> set ns1 \<and> (a \<longrightarrow> k1 = 0)"
    using s1 Cons.prems(2,3,4) by (auto split: if_splits dest: in_set_butlastD)
  with Cons.IH[of k1 ns1] Cons.prems(1) s1 show ?case by simp
qed

lemma foldl_step_dotdots: "foldl (step False) (k, []) (replicate j ''..'') = (k + j, [])"
  by (induction j arbitrary: k) auto

lemma foldl_step_names:
  "''.'' \<notin> set ns \<Longrightarrow> ''..'' \<notin> set ns \<Longrightarrow> foldl (step a) (k, acc) ns = (k, acc @ ns)"
  by (induction ns arbitrary: acc) auto

lemma resolve_idem: "resolve a (resolve a ss) = resolve a ss"
proof -
  obtain k ns where f: "foldl (step a) (0, []) ss = (k, ns)"
    by (cases "foldl (step a) (0, []) ss")
  from foldl_step_invariant[OF f] have i: "''.'' \<notin> set ns" "''..'' \<notin> set ns" "a \<longrightarrow> k = 0"
    by simp_all
  have "foldl (step a) (0, []) (replicate k ''..'' @ ns) = (k, ns)"
  proof (cases a)
    case True
    with i show ?thesis by (simp add: foldl_step_names)
  next
    case False
    with i show ?thesis
      using foldl_step_dotdots[of 0 k] by (simp add: foldl_step_names)
  qed
  with f show ?thesis by (simp add: resolve_def)
qed

lemma resolve_pieces:
  assumes "\<forall>x \<in> set ss. x \<noteq> [] \<and> CHR ''/'' \<notin> set x"
  shows "\<forall>x \<in> set (resolve a ss). x \<noteq> [] \<and> CHR ''/'' \<notin> set x"
proof -
  have "\<forall>x \<in> set ns0. x \<noteq> [] \<and> CHR ''/'' \<notin> set x \<Longrightarrow>
        \<forall>x \<in> set ss. x \<noteq> [] \<and> CHR ''/'' \<notin> set x \<Longrightarrow>
        foldl (step a) (k0, ns0) ss = (k, ns) \<Longrightarrow>
        \<forall>x \<in> set ns. x \<noteq> [] \<and> CHR ''/'' \<notin> set x" for k0 ns0 k ns
  proof (induction ss arbitrary: k0 ns0)
    case Nil
    then show ?case by simp
  next
    case (Cons s ss)
    obtain k1 ns1 where s1: "step a (k0, ns0) s = (k1, ns1)"
      by (cases "step a (k0, ns0) s")
    have "\<forall>x \<in> set ns1. x \<noteq> [] \<and> CHR ''/'' \<notin> set x"
      using s1 Cons.prems(1,2) by (auto split: if_splits dest: in_set_butlastD)
    with Cons.IH[of ns1 k1] Cons.prems(2,3) s1 show ?case by simp
  qed
  from this[of "[]" 0] assms show ?thesis
    by (cases "foldl (step a) (0, []) ss") (auto simp: resolve_def)
qed

lemma segments_slashes:
  assumes "\<forall>x \<in> set xs. x \<noteq> [] \<and> CHR ''/'' \<notin> set x"
  shows "segments (concat (map (\<lambda>x. x @ ''/'') xs) @ r) = xs @ segments r"
  using assms
proof (induction xs)
  case Nil
  then show ?case by simp
next
  case (Cons x xs)
  then have "segments x = [x]"
    by (simp add: segments_def split_on_no_sep)
  with Cons show ?case by (simp add: segments_append_sep)
qed

lemma segments_leading_slash: "segments (CHR ''/'' # r) = segments r"
  by (simp add: segments_def)

lemma plain_normal:
  assumes "plain n"
  shows "n \<noteq> ''.'' \<and> n \<noteq> ''..'' \<and> n \<noteq> [] \<and> hd n \<noteq> CHR ''/'' \<and> last n \<noteq> CHR ''/''"
proof -
  from assms have n: "n \<noteq> []" "CHR ''/'' \<notin> set n" "n \<noteq> ''.''" "n \<noteq> ''..''"
    by (simp_all add: plain_def)
  from n(1,2) have "hd n \<in> set n" "last n \<in> set n" by simp_all
  with n show ?thesis by metis
qed

lemma normalize_snoc_plain:
  assumes "plain n"
  shows "normalize (d @ CHR ''/'' # n) = dirpart (d @ ''/'') @ n"
proof -
  let ?a = "hd (d @ CHR ''/'' # n) = CHR ''/''"
  have a: "?a = ((d @ ''/'') \<noteq> [] \<and> hd (d @ ''/'') = CHR ''/'')"
    by (cases d) auto
  have s: "segments (d @ CHR ''/'' # n) = segments (d @ ''/'') @ [n]"
    using assms by (simp add: segments_append_sep segments_plain)
  have r: "resolve ?a (segments (d @ CHR ''/'' # n)) = resolve ?a (segments (d @ ''/'')) @ [n]"
    using assms by (simp add: s resolve_snoc plain_normal)
  have l: "last (d @ CHR ''/'' # n) \<noteq> CHR ''/''"
    using plain_normal[OF assms] by simp
  have b: "slashed (resolve ?a (segments (d @ ''/'')) @ [n]) \<noteq> []"
    using plain_normal[OF assms] by (simp add: slashed_snoc)
  show ?thesis
    unfolding normalize_def Let_def r
    using l b a by (simp add: slashed_snoc dirpart_def)
qed

lemma dirpart_slash: "dirpart (d @ ''/'') = (if d = [] then ''/'' else dirpart d)"
proof (cases d)
  case Nil
  then show ?thesis by (simp add: dirpart_def segments_def resolve_def)
next
  case (Cons c cs)
  have "segments (d @ ''/'') = segments d"
    using segments_append_sep[of d "[]"] by simp
  with Cons show ?thesis by (simp add: dirpart_def)
qed

lemma normalize_plain: "plain n \<Longrightarrow> normalize n = n"
  using plain_normal[of n]
  by (simp add: normalize_def segments_plain resolve_def Let_def)

text \<open>Joining a plain name to a directory appends it to the normal form of the directory.\<close>

lemma join_plain: "plain n \<Longrightarrow> join d n = dirpart d @ n"
proof (cases "d = []")
  case True
  assume "plain n"
  with True show ?thesis
    using plain_normal[of n]
    by (simp add: join_def path_join_def normalize_plain dirpart_def resolve_def)
next
  case False
  assume p: "plain n"
  from p False have "join d n = normalize (d @ CHR ''/'' # n)"
    using plain_normal[of n] by (simp add: join_def path_join_def)
  with p False show ?thesis by (simp add: normalize_snoc_plain dirpart_slash)
qed

lemma dirpart_join_plain:
  assumes "plain n"
  shows "dirpart (join d n) = join d n @ ''/''"
proof -
  let ?a = "d \<noteq> [] \<and> hd d = CHR ''/''"
  let ?X = "resolve ?a (segments d)"
  let ?pre = "if ?a then ''/'' else []"
  have j: "join d n = ?pre @ concat (map (\<lambda>s. s @ ''/'') ?X) @ n"
    using assms by (simp add: join_plain dirpart_def)
  have px: "\<forall>x \<in> set ?X. x \<noteq> [] \<and> CHR ''/'' \<notin> set x"
    by (rule resolve_pieces) (simp add: segments_pieces)
  have ne: "join d n \<noteq> []"
    using j plain_normal[OF assms] by simp
  have hd_body: "hd (concat (map (\<lambda>s. s @ ''/'') ?X) @ n) \<noteq> CHR ''/''"
  proof (cases ?X)
    case Nil
    then show ?thesis using plain_normal[OF assms] by simp
  next
    case (Cons x xs)
    with px have "x \<noteq> [] \<and> CHR ''/'' \<notin> set x" by simp
    then have "hd x \<noteq> CHR ''/''" by (cases x) auto
    with Cons \<open>x \<noteq> [] \<and> CHR ''/'' \<notin> set x\<close> show ?thesis by (simp add: hd_append)
  qed
  have a: "(join d n \<noteq> [] \<and> hd (join d n) = CHR ''/'') = ?a"
    using j hd_body ne by (auto simp: hd_append split: if_splits)
  have sg: "segments (join d n) = ?X @ [n]"
    using px assms by (simp add: j segments_slashes segments_leading_slash segments_plain)
  have "resolve ?a (?X @ [n]) = ?X @ [n]"
    using assms by (simp add: resolve_snoc plain_normal resolve_idem)
  then show ?thesis
    unfolding dirpart_def a sg by (simp add: j)
qed

lemma join_child: "plain m \<Longrightarrow> plain n \<Longrightarrow> join (join d m) n = join d m @ ''/'' @ n"
  by (simp add: join_plain[of n] dirpart_join_plain)

lemma dirpart_snoc_plain:
  assumes "plain m" "d \<noteq> []"
  shows "dirpart (d @ CHR ''/'' # m) = dirpart d @ m @ ''/''"
proof -
  have h: "hd (d @ CHR ''/'' # m) = hd d"
    using assms(2) by simp
  have "resolve a (segments (d @ CHR ''/'' # m)) = resolve a (segments d) @ [m]" for a
    using assms(1) by (simp add: segments_append_sep segments_plain resolve_snoc plain_normal)
  then show ?thesis
    using assms(2) by (simp add: dirpart_def h)
qed

lemma path_join3_plain:
  assumes "plain m" "plain n"
  shows "path_join [c, m, n] = join (join c m) n"
proof -
  have m: "m \<noteq> []" and n: "n \<noteq> []"
    using assms by (simp_all add: plain_def)
  show ?thesis
  proof (cases "c = []")
    case True
    have "path_join [c, m, n] = normalize (m @ CHR ''/'' # n)"
      using True m n by (simp add: path_join_def)
    also have "\<dots> = dirpart m @ n"
      using assms(2) m by (simp add: normalize_snoc_plain dirpart_slash)
    also have "\<dots> = join (join c m) n"
      using True assms by (simp add: join_plain[of n] join_plain[of m] dirpart_def resolve_def)
    finally show ?thesis .
  next
    case False
    have "path_join [c, m, n] = normalize ((c @ CHR ''/'' # m) @ CHR ''/'' # n)"
      using False m n by (simp add: path_join_def)
    also have "\<dots> = dirpart (c @ CHR ''/'' # m) @ n"
      using assms(2) by (simp only: normalize_snoc_plain dirpart_slash) simp
    also have "\<dots> = dirpart c @ m @ ''/'' @ n"
      using assms(1) False by (simp add: dirpart_snoc_plain)
    also have "\<dots> = join (join c m) n"
      using join_child[OF assms, of c] join_plain[OF assms(1), of c] by simp
    finally show ?thesis .
  qed
qed

text \<open>A path that ends in a character other than the separator and the dot keeps it.\<close>

lemma split_on_last:
  "s \<noteq> [] \<Longrightarrow> last s \<noteq> d \<Longrightarrow>
   last (split_on d s) \<noteq> [] \<and> last (last (split_on d s)) = last s"
proof (induction s)
  case Nil
  then show ?case by simp
next
  case (Cons c s)
  obtain x xs where x: "split_on d s = x # xs"
    by (cases "split_on d s") auto
  show ?case
  proof (cases "s = []")
    case True
    with Cons.prems show ?thesis by simp
  next
    case False
    with Cons have "last (split_on d s) \<noteq> [] \<and> last (last (split_on d s)) = last s"
      by simp
    with x False show ?thesis by (cases xs) auto
  qed
qed

lemma last_filter_keeps: "xs \<noteq> [] \<Longrightarrow> P (last xs) \<Longrightarrow> last (filter P xs) = last xs"
  by (induction xs) (auto simp: filter_empty_conv)

lemma normalize_last:
  assumes "p \<noteq> []" "last p \<noteq> CHR ''/''" "last p \<noteq> CHR ''.''"
  shows "normalize p \<noteq> [] \<and> last (normalize p) = last p"
proof -
  let ?a = "hd p = CHR ''/''"
  from split_on_last[OF assms(1,2)]
  have l: "last (split_on CHR ''/'' p) \<noteq> []" "last (last (split_on CHR ''/'' p)) = last p"
    by simp_all
  have "segments p \<noteq> []"
    using l(1) by (auto simp: segments_def filter_empty_conv intro!: bexI[of _ "last (split_on CHR ''/'' p)"])
  moreover have "last (segments p) = last (split_on CHR ''/'' p)"
    using l(1) by (simp add: segments_def last_filter_keeps)
  ultimately obtain ys z where z: "segments p = ys @ [z]" "z \<noteq> []" "last z = last p"
    using l by (metis append_butlast_last_id)
  from z(2,3) assms(3) have zn: "z \<noteq> ''.''" "z \<noteq> ''..''"
    by auto
  have r: "resolve ?a (segments p) = resolve ?a ys @ [z]"
    using zn by (simp add: z(1) resolve_snoc)
  show ?thesis
    unfolding normalize_def Let_def r
    using assms z(2,3) by (simp add: slashed_snoc)
qed

lemma join_last:
  assumes "n \<noteq> []" "last n \<noteq> CHR ''/''" "last n \<noteq> CHR ''.''"
  shows "last (join d n) = last n"
proof (cases "d = []")
  case True
  with assms show ?thesis
    by (simp add: join_def path_join_def normalize_last)
next
  case False
  have "join d n = normalize (d @ CHR ''/'' # n)"
    using False assms(1) by (simp add: join_def path_join_def)
  moreover have "last (d @ CHR ''/'' # n) = last n"
    using assms(1) by simp
  ultimately show ?thesis
    using normalize_last[of "d @ CHR ''/'' # n"] assms by simp
qed

lemma join_inject_plain: "plain a \<Longrightarrow> plain b \<Longrightarrow> (join d a = join d b) = (a = b)"
  by (simp add: join_plain)


section \<open>The sandbox\<close>

lemma plain_store_names [simp]: "plain ''temp''" "plain ''output''" "plain ''uploads''"
  by (simp_all add: plain_def)

lemma plain_script: "CHR ''/'' \<notin> set i \<Longrightarrow> plain (i @ ''.py'')"
  by (cases i; cases "tl i") (auto simp: plain_def)

lemma plain_chart: "CHR ''/'' \<notin> set i \<Longrightarrow> plain (i @ ''.'' @ format_string f)"
  by (cases f; cases i; cases "tl i") (auto simp: plain_def)

lemma script_not_chart: "pythonFile e a \<noteq> outputFile e b f"
proof -
  have "last (pythonFile e a) = CHR ''y''"
    by (simp add: pythonFile_def join_last)
  moreover have "last (outputFile e b f) \<noteq> CHR ''y''"
    by (cases f) (simp_all add: outputFile_def join_last)
  ultimately show ?thesis by metis
qed

lemma is_uuid_length: "is_uuid s \<Longrightarrow> length s = 36"
  by (auto simp: is_uuid_def dest: list_all2_lengthD)

lemma uuid_char_no_slash:
  "k \<in> set ''xxxxxxxx-xxxx-4xxx-yxxx-xxxxxxxxxxxx'' \<Longrightarrow> uuid_char k c \<Longrightarrow> c \<noteq> CHR ''/''"
  by (auto simp: uuid_char_def is_hex_def)

lemma is_uuid_no_slash: "is_uuid s \<Longrightarrow> CHR ''/'' \<notin> set s"
proof
  assume u: "is_uuid s" and "CHR ''/'' \<in> set s"
  then obtain i where i: "i < length s" "s ! i = CHR ''/''"
    by (auto simp: in_set_conv_nth)
  let ?t = "''xxxxxxxx-xxxx-4xxx-yxxx-xxxxxxxxxxxx''"
  from u have l: "length ?t = length s" and a: "\<forall>j < length ?t. uuid_char (?t ! j) (s ! j)"
    unfolding is_uuid_def list_all2_conv_all_nth by blast+
  from i l a have "uuid_char (?t ! i) (s ! i)" by metis
  moreover from i l have "?t ! i \<in> set ?t" by (metis nth_mem)
  ultimately show False using i(2) uuid_char_no_slash by metis
qed

lemma map_of_filter_fst:
  "map_of (filter (\<lambda>e. fst e \<noteq> q) xs) p = (if p = q then None else map_of xs p)"
  by (induction xs) auto

lemma unlinkSync_Inr:
  assumes "unlinkSync e q w = Inr w'"
  shows "statSync p w' = (if p = q then None else statSync p w)" and "now w' = now w"
    and "\<exists>f. statSync q w = Some f \<and> \<not> is_directory f"
  using assms
  by (auto simp: unlinkSync_def statSync_def map_of_filter_fst split: option.splits if_splits)

lemma trim_Nil [simp]: "trim [] = []"
  by (simp add: trim_def)

lemma runPythonFile_error:
  assumes "runPythonFile e s w = Some (Resolved result, w')"
  shows "(run_success result \<longrightarrow> run_error result = None)
       \<and> (\<forall>m. run_error result = Some m \<longrightarrow> m \<noteq> [])"
  using assms
  by (auto simp: runPythonFile_def Let_def split: py_run.splits prod.splits if_splits)

lemma execute_try_cases:
  assumes "execute_try e w i q = Some (r, w1)"
  shows "success r = (clean_run e w i q \<and> existsSync (outputFile e i (outputFormat q)) w1)
       \<and> (success r \<longrightarrow> chartPath r = Some (outputFile e i (outputFormat q)))
       \<and> (\<not> success r \<longrightarrow> chartPath r = None)
       \<and> (clean_run e w i q \<and> \<not> existsSync (outputFile e i (outputFormat q)) w1
            \<longrightarrow> error r = Some ''Chart generation failed'')"
  using assms
  by (auto simp: execute_try_def clean_run_def Let_def caught_def or_default_def
           dest: runPythonFile_error
           split: sum.splits option.splits settled.splits prod.splits if_splits)


lemma executePythonCode_cases:
  assumes "executePythonCode e w i q = Some (Resolved r, w')"
  shows "\<exists>w1. execute_try e w i q = Some (r, w1)
            \<and> \<not> existsSync (pythonFile e i) w'
            \<and> (\<forall>p. p \<noteq> pythonFile e i \<longrightarrow> statSync p w' = statSync p w1)"
  using assms
  by (auto simp: executePythonCode_def existsSync_def unlinkSync_Inr(1)
           split: option.splits if_splits sum.splits)

text \<open>
  C1. Whenever \<open>executePythonCode\<close> returns, \<open>success\<close> is true exactly when the run reported
  clean completion and the output file of this execution is on disk at the return; when the run
  was clean and the file is missing, the result carries the message \<open>Chart generation failed\<close>.
\<close>

theorem executePythonCode_success:
  assumes "executePythonCode e w i q = Some (Resolved r, w')"
  shows "success r = (clean_run e w i q \<and> existsSync (outputFile e i (outputFormat q)) w')
       \<and> (clean_run e w i q \<and> \<not> existsSync (outputFile e i (outputFormat q)) w'
            \<longrightarrow> \<not> success r \<and> error r = Some ''Chart generation failed'')"
proof -
  from executePythonCode_cases[OF assms] obtain w1 where
    t: "execute_try e w i q = Some (r, w1)"
    and k: "\<forall>p. p \<noteq> pythonFile e i \<longrightarrow> statSync p w' = statSync p w1"
    by blast
  from k have "existsSync (outputFile e i (outputFormat q)) w'
      = existsSync (outputFile e i (outputFormat q)) w1"
    using script_not_chart[of e i i "outputFormat q"] by (auto simp: existsSync_def)
  with execute_try_cases[OF t] show ?thesis by simp
qed

lemma demo_env_sel:
  "cwd (demo_env py) = ''/app''"
  "write_fault (demo_env py) = (\<lambda>p w. None)"
  "unlink_fault (demo_env py) = (\<lambda>p w. None)"
  "python (demo_env py) = py"
  "xlsx_rows (demo_env py) = (\<lambda>c. Inr None)"
  "number_is_nan (demo_env py) = demo_number_is_nan"
  "date_parse_is_nan (demo_env py) = (\<lambda>v. v \<noteq> Str ''2024-01-15'')"
  "provider (demo_env py) m q d
     = Inr ''ANALYSIS: sales by region CODE: df.plot() VISUALIZATION_TYPE: bar EXPLANATION: totals''"
  by (simp_all add: demo_env_def)

lemma demo_dirs:
  "tempDir (demo_env py) = ''/app/temp''"
  "outputDir (demo_env py) = ''/app/output''"
  "uploadDir (demo_env py) = ''/app/uploads''"
  by (simp_all add: tempDir_def outputDir_def uploadDir_def demo_env_sel join_plain dirpart_def
        segments_def resolve_def)

lemma join_demo_store:
  "plain n \<Longrightarrow> join ''/app/temp'' n = ''/app/temp/'' @ n"
  "plain n \<Longrightarrow> join ''/app/output'' n = ''/app/output/'' @ n"
  "plain n \<Longrightarrow> join ''/app/uploads'' n = ''/app/uploads/'' @ n"
  by (simp_all add: join_plain dirpart_def segments_def resolve_def)

lemma demo_paths:
  "pythonFile (demo_env py) demo_id = ''/app/temp/3f2b8c1e-5d4a-4f6b-9a7c-0e1d2c3b4a59.py''"
  "outputFile (demo_env py) demo_id Png = ''/app/output/3f2b8c1e-5d4a-4f6b-9a7c-0e1d2c3b4a59.png''"
  by (simp_all add: pythonFile_def outputFile_def demo_dirs join_demo_store plain_def demo_id_def)

theorem executePythonCode_success_witness:
  "executePythonCode (demo_env py_no_chart) demo_world demo_id demo_request =
     Some (Resolved \<lparr>success = False, output' = ''=== EXECUTION COMPLETED ==='',
             error = Some ''Chart generation failed'', chartPath = None, chartData = None\<rparr>,
           demo_world)
   \<and> clean_run (demo_env py_no_chart) demo_world demo_id demo_request
   \<and> \<not> existsSync (outputFile (demo_env py_no_chart) demo_id (outputFormat demo_request)) demo_world"
proof -
  have h: "executePythonCode (demo_env py_no_chart) demo_world demo_id demo_request =
     Some (Resolved \<lparr>success = False, output' = ''=== EXECUTION COMPLETED ==='',
             error = Some ''Chart generation failed'', chartPath = None, chartData = None\<rparr>,
           demo_world)"
    by (simp add: executePythonCode_def execute_try_def demo_paths demo_request_def
        writeFileSync_def unlinkSync_def runPythonFile_def existsSync_def statSync_def
        demo_env_sel py_no_chart_def demo_world_def demo_dir_def or_default_def
        trim_def js_space_def Let_def)
  have c: "clean_run (demo_env py_no_chart) demo_world demo_id demo_request"
    by (simp add: clean_run_def demo_paths demo_request_def writeFileSync_def runPythonFile_def
        statSync_def demo_env_sel py_no_chart_def demo_world_def demo_dir_def)
  from executePythonCode_success[OF h] c h show ?thesis by simp
qed

text \<open>
  C2. Two executions whose ids are distinct version 4 identifiers have distinct script paths
  and distinct output paths, whatever their formats, and neither script path is the other's
  output path; the two paths of one execution are built from the one id. The paths depend on the
  working directory, the id and the format, and on nothing else: no clock enters them.
\<close>

theorem execution_paths_distinct:
  assumes "is_uuid id1" "is_uuid id2" "id1 \<noteq> id2"
  shows "pythonFile e id1 \<noteq> pythonFile e id2
       \<and> outputFile e id1 f1 \<noteq> outputFile e id2 f2
       \<and> pythonFile e id1 \<noteq> outputFile e id2 f2
       \<and> pythonFile e id2 \<noteq> outputFile e id1 f1
       \<and> pythonFile e id1 = join (tempDir e) (id1 @ ''.py'')
       \<and> outputFile e id1 f1 = join (outputDir e) (id1 @ ''.'' @ format_string f1)"
proof -
  have s: "CHR ''/'' \<notin> set id1" "CHR ''/'' \<notin> set id2"
    using assms(1,2) by (simp_all add: is_uuid_no_slash)
  have "id1 @ ''.'' @ format_string f1 \<noteq> id2 @ ''.'' @ format_string f2"
  proof
    assume "id1 @ ''.'' @ format_string f1 = id2 @ ''.'' @ format_string f2"
    moreover have "length id1 = length id2"
      using assms(1,2) by (simp add: is_uuid_length)
    ultimately have "id1 = id2" by simp
    with assms(3) show False by simp
  qed
  then have "outputFile e id1 f1 \<noteq> outputFile e id2 f2"
    unfolding outputFile_def
    using join_inject_plain[OF plain_chart[OF s(1), of f1] plain_chart[OF s(2), of f2], of "outputDir e"]
    by blast
  moreover have "pythonFile e id1 \<noteq> pythonFile e id2"
    unfolding pythonFile_def
    using assms(3) join_inject_plain[OF plain_script[OF s(1)] plain_script[OF s(2)], of "tempDir e"]
    by simp
  moreover have "pythonFile e id1 = join (tempDir e) (id1 @ ''.py'')"
    by (simp add: pythonFile_def)
  moreover have "outputFile e id1 f1 = join (outputDir e) (id1 @ ''.'' @ format_string f1)"
    by (simp add: outputFile_def)
  ultimately show ?thesis
    using script_not_chart[of e id1 id2 f2] script_not_chart[of e id2 id1 f1] by blast
qed

theorem execution_paths_distinct_witness:
  "is_uuid demo_id \<and> is_uuid demo_id' \<and> demo_id \<noteq> demo_id'
   \<and> pythonFile (demo_env py_no_chart) demo_id \<noteq> pythonFile (demo_env py_no_chart) demo_id'
   \<and> outputFile (demo_env py_no_chart) demo_id Png \<noteq> outputFile (demo_env py_no_chart) demo_id' Png"
proof -
  have h: "is_uuid demo_id" "is_uuid demo_id'" "demo_id \<noteq> demo_id'"
    by (simp_all add: is_uuid_def demo_id_def demo_id'_def uuid_char_def is_hex_def)
  from execution_paths_distinct[OF h, of "demo_env py_no_chart" Png Png] h
  show ?thesis by blast
qed






section \<open>The retention sweep\<close>

lemma child_name_iff: "n \<in> set (child_name dir p) \<longleftrightarrow> plain n \<and> p = dir @ ''/'' @ n"
proof
  assume "n \<in> set (child_name dir p)"
  then have p: "prefix (dir @ ''/'') p" and n: "n = drop (length dir + 1) p" and pl: "plain n"
    by (auto simp: child_name_def Let_def split: if_splits)
  from p obtain r where "p = (dir @ ''/'') @ r" by (auto simp: prefix_def)
  with n pl show "plain n \<and> p = dir @ ''/'' @ n" by simp
next
  assume "plain n \<and> p = dir @ ''/'' @ n"
  then show "n \<in> set (child_name dir p)" by (simp add: child_name_def)
qed

lemma existsSync_iff: "existsSync p w \<longleftrightarrow> p \<in> fst ` set (files w)"
  by (simp add: existsSync_def statSync_def map_of_eq_None_iff)

lemma readdirSync_iff:
  "n \<in> set (readdirSync dir w) \<longleftrightarrow> plain n \<and> existsSync (dir @ ''/'' @ n) w"
  by (force simp: readdirSync_def child_name_iff existsSync_iff image_iff)


lemma store_child:
  "plain n \<Longrightarrow> join (tempDir e) n = tempDir e @ ''/'' @ n"
  "plain n \<Longrightarrow> join (outputDir e) n = outputDir e @ ''/'' @ n"
  by (simp_all add: tempDir_def outputDir_def join_child)

lemma store_listing:
  "n \<in> set (readdirSync (tempDir e) w) \<longleftrightarrow> plain n \<and> existsSync (join (tempDir e) n) w"
  "n \<in> set (readdirSync (outputDir e) w) \<longleftrightarrow> plain n \<and> existsSync (join (outputDir e) n) w"
  by (auto simp: readdirSync_iff store_child)

















section \<open>Charts that are not there\<close>

lemma chart_path: "plain name \<Longrightarrow> path_join [cwd e, ''output'', name] = join (outputDir e) name"
  by (simp add: path_join3_plain outputDir_def)

text \<open>
  C7, as amended. For a plain file name (no separator, neither \<open>.\<close> nor \<open>..\<close>) that the
  listing of the output directory does not have, GET and DELETE answer 404 and DELETE leaves the
  disk as it is; and after a DELETE of a plain name that answered 200 the name is no longer
  listed, and a second DELETE and a GET of it answer 404.
\<close>

theorem missing_chart_not_found:
  assumes "plain name"
  shows "(name \<notin> set (readdirSync (outputDir e) w) \<longrightarrow>
            get_chart e name w = (404, Json_error ''Chart not found'')
          \<and> delete_chart e name w = ((404, Json_error ''Chart not found''), w))
       \<and> (\<forall>w1. delete_chart e name w = ((200, Json_success ''Chart deleted successfully''), w1) \<longrightarrow>
            name \<in> set (readdirSync (outputDir e) w)
          \<and> name \<notin> set (readdirSync (outputDir e) w1)
          \<and> delete_chart e name w1 = ((404, Json_error ''Chart not found''), w1)
          \<and> get_chart e name w1 = (404, Json_error ''Chart not found''))"
proof -
  let ?q = "join (outputDir e) name"
  have l: "name \<in> set (readdirSync (outputDir e) v) \<longleftrightarrow> existsSync ?q v" for v
    using assms by (simp add: store_listing)
  have missing: "get_chart e name v = (404, Json_error ''Chart not found'')
          \<and> delete_chart e name v = ((404, Json_error ''Chart not found''), v)"
    if "\<not> existsSync ?q v" for v
    using that assms by (simp add: get_chart_def delete_chart_def chart_path Let_def)
  have "name \<in> set (readdirSync (outputDir e) w) \<and> \<not> existsSync ?q w1"
    if d: "delete_chart e name w = ((200, Json_success ''Chart deleted successfully''), w1)" for w1
  proof -
    from d assms have x: "existsSync ?q w" and u: "unlinkSync e ?q w = Inr w1"
      by (auto simp: delete_chart_def chart_path Let_def split: if_splits sum.splits)
    from unlinkSync_Inr(1)[OF u, of ?q] x l[of w] show ?thesis
      by (simp add: existsSync_def)
  qed
  with missing l show ?thesis by blast
qed

theorem missing_chart_not_found_witness:
  "plain ''old.png''
   \<and> delete_chart (demo_env py_no_chart) ''old.png'' demo_store
     = ((200, Json_success ''Chart deleted successfully''),
        \<lparr>files = [(''/app/temp'', demo_dir), (''/app/output'', demo_dir),
                  (''/app/temp/a.py'', \<lparr>content = ''s'', mtime = 0, is_directory = False\<rparr>),
                  (''/app/output/new.png'', \<lparr>content = ''n'', mtime = 900, is_directory = False\<rparr>)],
         now = 1000\<rparr>)
   \<and> ''old.png'' \<notin> set (readdirSync (outputDir (demo_env py_no_chart))
        \<lparr>files = [(''/app/temp'', demo_dir), (''/app/output'', demo_dir),
                  (''/app/temp/a.py'', \<lparr>content = ''s'', mtime = 0, is_directory = False\<rparr>),
                  (''/app/output/new.png'', \<lparr>content = ''n'', mtime = 900, is_directory = False\<rparr>)],
         now = 1000\<rparr>)
   \<and> delete_chart (demo_env py_no_chart) ''old.png''
        \<lparr>files = [(''/app/temp'', demo_dir), (''/app/output'', demo_dir),
                  (''/app/temp/a.py'', \<lparr>content = ''s'', mtime = 0, is_directory = False\<rparr>),
                  (''/app/output/new.png'', \<lparr>content = ''n'', mtime = 900, is_directory = False\<rparr>)],
         now = 1000\<rparr>
     = ((404, Json_error ''Chart not found''),
        \<lparr>files = [(''/app/temp'', demo_dir), (''/app/output'', demo_dir),
                  (''/app/temp/a.py'', \<lparr>content = ''s'', mtime = 0, is_directory = False\<rparr>),
                  (''/app/output/new.png'', \<lparr>content = ''n'', mtime = 900, is_directory = False\<rparr>)],
         now = 1000\<rparr>)
   \<and> get_chart (demo_env py_no_chart) ''old.png''
        \<lparr>files = [(''/app/temp'', demo_dir), (''/app/output'', demo_dir),
                  (''/app/temp/a.py'', \<lparr>content = ''s'', mtime = 0, is_directory = False\<rparr>),
                  (''/app/output/new.png'', \<lparr>content = ''n'', mtime = 900, is_directory = False\<rparr>)],
         now = 1000\<rparr>
     = (404, Json_error ''Chart not found'')"
proof -
  have p: "plain ''old.png''" by (simp add: plain_def)
  have c: "path_join [''/app'', ''output'', ''old.png''] = ''/app/output/old.png''"
    using chart_path[OF p, of "demo_env py_no_chart"]
    by (simp add: demo_env_sel demo_dirs join_demo_store p)
  have d: "delete_chart (demo_env py_no_chart) ''old.png'' demo_store
     = ((200, Json_success ''Chart deleted successfully''),
        \<lparr>files = [(''/app/temp'', demo_dir), (''/app/output'', demo_dir),
                  (''/app/temp/a.py'', \<lparr>content = ''s'', mtime = 0, is_directory = False\<rparr>),
                  (''/app/output/new.png'', \<lparr>content = ''n'', mtime = 900, is_directory = False\<rparr>)],
         now = 1000\<rparr>)"
    by (simp add: delete_chart_def demo_env_sel c existsSync_def statSync_def unlinkSync_def
          demo_store_def demo_dir_def)
  from missing_chart_not_found[OF p, of "demo_env py_no_chart" demo_store] p d
  show ?thesis by simp
qed

text \<open>
  C7, as stated, fails for a name that leaves the output directory: \<open>join\<close> resolves the \<open>..\<close>
  of the name. The name of the example is not in the listing of the output directory; GET
  answers 200 with the bytes of the uploaded dataset and DELETE answers 200 and removes the
  upload. For the name \<open>.\<close>, which is not listed either, both routes answer 500.
\<close>

theorem chart_name_leaves_output:
  "''../uploads/7c9e6679-7425-40de-944b-e07fc1f90ae7-1700000000000.csv''
      \<notin> set (readdirSync (outputDir (demo_env py_no_chart)) demo_uploads)
   \<and> get_chart (demo_env py_no_chart)
        ''../uploads/7c9e6679-7425-40de-944b-e07fc1f90ae7-1700000000000.csv'' demo_uploads
      = (200, File_bytes ''application/octet-stream'' 31
                ''Region,Sales\<newline>North,10\<newline>South,20\<newline>'')
   \<and> delete_chart (demo_env py_no_chart)
        ''../uploads/7c9e6679-7425-40de-944b-e07fc1f90ae7-1700000000000.csv'' demo_uploads
      = ((200, Json_success ''Chart deleted successfully''), demo_world\<lparr>now := 2000\<rparr>)
   \<and> ''.'' \<notin> set (readdirSync (outputDir (demo_env py_no_chart)) demo_uploads)
   \<and> get_chart (demo_env py_no_chart) ''.'' demo_uploads
      = (500, Json_error ''Internal server error while serving chart'')
   \<and> delete_chart (demo_env py_no_chart) ''.'' demo_uploads
      = ((500, Json_error ''Internal server error while deleting chart''), demo_uploads)"
proof -
  have a: "path_join [''/app'', ''output'',
              ''../uploads/7c9e6679-7425-40de-944b-e07fc1f90ae7-1700000000000.csv'']
           = ''/app/uploads/7c9e6679-7425-40de-944b-e07fc1f90ae7-1700000000000.csv''"
    by (simp add: path_join_def normalize_def segments_def resolve_def Let_def)
  have b: "path_join [''/app'', ''output'', ''.''] = ''/app/output''"
    by (simp add: path_join_def normalize_def segments_def resolve_def Let_def)
  have l: "readdirSync ''/app/output'' demo_uploads = []"
    by (simp add: readdirSync_def child_name_def demo_uploads_def plain_def)
  have r: "get_chart (demo_env py_no_chart)
        ''../uploads/7c9e6679-7425-40de-944b-e07fc1f90ae7-1700000000000.csv'' demo_uploads
      = (200, File_bytes ''application/octet-stream'' 31
                ''Region,Sales\<newline>North,10\<newline>South,20\<newline>'')
   \<and> delete_chart (demo_env py_no_chart)
        ''../uploads/7c9e6679-7425-40de-944b-e07fc1f90ae7-1700000000000.csv'' demo_uploads
      = ((200, Json_success ''Chart deleted successfully''), demo_world\<lparr>now := 2000\<rparr>)
   \<and> get_chart (demo_env py_no_chart) ''.'' demo_uploads
      = (500, Json_error ''Internal server error while serving chart'')
   \<and> delete_chart (demo_env py_no_chart) ''.'' demo_uploads
      = ((500, Json_error ''Internal server error while deleting chart''), demo_uploads)"
    by (simp add: get_chart_def delete_chart_def demo_env_sel a b
          existsSync_def statSync_def readFileSync_def unlinkSync_def
          demo_uploads_def demo_world_def demo_csv_def demo_dir_def
          contentType_of_def toLowerCase_def lower_char_def last_segment_def Let_def)
  from r show ?thesis by (simp add: demo_dirs l)
qed


section \<open>Inferred column types\<close>

lemma filter_head_find:
  "(case filter P xs of [] \<Rightarrow> a | x # _ \<Rightarrow> f x) = (case find P xs of None \<Rightarrow> a | Some x \<Rightarrow> f x)"
  by (induction xs) auto

lemma column_type_first:
  "column_type e i rows = type_of_first e (first_non_empty i rows)"
  unfolding column_type_def columnValues_def first_non_empty_def type_of_first_def
  by (simp add: filter_head_find)

lemma inferDataTypes_snoc:
  "inferDataTypes e (hs @ [h]) rows
     = (if h = ''__proto__'' then inferDataTypes e hs rows
        else (inferDataTypes e hs rows)(h \<mapsto> column_type e (length hs) rows))"
  by (simp add: inferDataTypes_def)

lemma inferDataTypes_Nil: "inferDataTypes e [] rows = Map.empty"
  by (simp add: inferDataTypes_def)


lemma inferDataTypes_last:
  assumes "i < length hs" "\<forall>j. i < j \<and> j < length hs \<longrightarrow> hs ! j \<noteq> hs ! i"
      and "hs ! i \<noteq> ''__proto__''"
  shows "inferDataTypes e hs rows (hs ! i) = Some (column_type e i rows)"
  using assms
proof (induction hs rule: rev_induct)
  case Nil
  then show ?case by simp
next
  case (snoc h hs)
  show ?case
  proof (cases "i = length hs")
    case True
    with snoc.prems(3) show ?thesis by (simp add: inferDataTypes_snoc)
  next
    case False
    with snoc.prems(1) have i: "i < length hs" by simp
    from snoc.prems(2) i have "(hs @ [h]) ! length hs \<noteq> (hs @ [h]) ! i"
      by (metis length_append_singleton lessI)
    with i have ne: "h \<noteq> hs ! i" by (simp add: nth_append)
    have "\<forall>j. i < j \<and> j < length hs \<longrightarrow> hs ! j \<noteq> hs ! i"
    proof (intro allI impI)
      fix j assume j: "i < j \<and> j < length hs"
      with snoc.prems(2) have "(hs @ [h]) ! j \<noteq> (hs @ [h]) ! i" by simp
      with j i show "hs ! j \<noteq> hs ! i" by (simp add: nth_append)
    qed
    with snoc.IH i snoc.prems(3)
    have "inferDataTypes e hs rows (hs ! i) = Some (column_type e i rows)"
      by (simp add: nth_append)
    with ne i show ?thesis by (simp add: inferDataTypes_snoc nth_append)
  qed
qed

text \<open>
  C9, as amended. For a column whose header name does not come again later in the header row
  and is not \<open>__proto__\<close>, the type recorded under its name is number, date or string, and is
  the type that the first non-empty value of the column decides: the values after it do not
  enter. A column without a non-empty value is typed string.
\<close>

theorem inferDataTypes_first_value:
  assumes "i < length headers"
      and "\<forall>j. i < j \<and> j < length headers \<longrightarrow> headers ! j \<noteq> headers ! i"
      and "headers ! i \<noteq> ''__proto__''"
  shows "inferDataTypes e headers rows (headers ! i)
           = Some (type_of_first e (first_non_empty i rows))
       \<and> type_of_first e (first_non_empty i rows) \<in> {''number'', ''date'', ''string''}
       \<and> (first_non_empty i rows = None \<longrightarrow>
            inferDataTypes e headers rows (headers ! i) = Some ''string'')"
proof -
  have "inferDataTypes e headers rows (headers ! i) = Some (type_of_first e (first_non_empty i rows))"
    using inferDataTypes_last[OF assms] by (simp add: column_type_first)
  moreover have "type_of_first e v \<in> {''number'', ''date'', ''string''}" for v
    by (simp add: type_of_first_def split: option.splits)
  ultimately show ?thesis by (simp add: type_of_first_def)
qed

theorem inferDataTypes_first_value_witness:
  "first_non_empty 1 [[Str ''North'', Str []], [Str ''South'', Str ''20''], [Str ''East'', Str ''n/a'']]
     = Some (Str ''20'')
   \<and> inferDataTypes (demo_env py_no_chart) [''Region'', ''Sales'']
        [[Str ''North'', Str []], [Str ''South'', Str ''20''], [Str ''East'', Str ''n/a'']] ''Sales''
       = Some ''number''"
proof -
  let ?rows = "[[Str ''North'', Str []], [Str ''South'', Str ''20''], [Str ''East'', Str ''n/a'']]"
  have h: "(1::nat) < length [''Region'', ''Sales'']"
          "\<forall>j. 1 < j \<and> j < length [''Region'', ''Sales'']
               \<longrightarrow> [''Region'', ''Sales''] ! j \<noteq> [''Region'', ''Sales''] ! 1"
          "[''Region'', ''Sales''] ! 1 \<noteq> ''__proto__''"
    by simp_all
  have f: "first_non_empty 1 ?rows = Some (Str ''20'')"
    by (simp add: first_non_empty_def at_index_def)
  have t: "type_of_first (demo_env py_no_chart) (Some (Str ''20'')) = ''number''"
    by (simp add: type_of_first_def demo_env_def demo_number_is_nan_def)
  from inferDataTypes_first_value[OF h, of "demo_env py_no_chart" ?rows] f t
  show ?thesis by simp
qed

text \<open>
  C9, as stated, fails for a header row that repeats a name: in the dataset \<open>a,a / 1,x\<close> the
  first non-empty value of the first column is \<open>1\<close>, which decides number, and the type
  recorded for the name of that column is string, from the second column. It fails as well for
  a column named \<open>__proto__\<close>, for which no type is recorded.
\<close>

theorem repeated_header_counterexample:
  "first_non_empty 0 [[Str ''1'', Str ''x'']] = Some (Str ''1'')
   \<and> type_of_first (demo_env py_no_chart) (Some (Str ''1'')) = ''number''
   \<and> [''a'', ''a''] ! 0 = ''a''
   \<and> inferDataTypes (demo_env py_no_chart) [''a'', ''a''] [[Str ''1'', Str ''x'']] ''a''
       = Some ''string''
   \<and> inferDataTypes (demo_env py_no_chart) [''__proto__''] [[Str ''1'']] ''__proto__'' = None"
  by (simp add: first_non_empty_def type_of_first_def at_index_def demo_env_def
        demo_number_is_nan_def inferDataTypes_def column_type_def columnValues_def)


section \<open>Dataset ids\<close>

lemma js_includes_drop: "js_includes s t \<Longrightarrow> \<exists>k. prefix t (drop k s)"
proof (induction s)
  case Nil
  then show ?case by simp
next
  case (Cons c s)
  from Cons.prems have "prefix t (c # s) \<or> js_includes s t" by simp
  then show ?case
  proof
    assume "prefix t (c # s)"
    then have "prefix t (drop 0 (c # s))" by simp
    then show ?thesis by blast
  next
    assume "js_includes s t"
    from Cons.IH[OF this] obtain k where "prefix t (drop k s)" by blast
    then have "prefix t (drop (Suc k) (c # s))" by simp
    then show ?thesis by blast
  qed
qed

lemma prefix_drop_nth:
  assumes "prefix t (drop k s)" "i < length t"
  shows "k + i < length s \<and> s ! (k + i) = t ! i"
proof -
  from assms(1) obtain r where r: "drop k s = t @ r" by (auto simp: prefix_def)
  then have "length t \<le> length s - k"
    by (metis length_append length_drop le_add1)
  with assms(2) have l: "k + i < length s" by simp
  from r assms(2) have "drop k s ! i = t ! i" by (simp add: nth_append)
  with l show ?thesis by simp
qed

lemma uuid_hyphens:
  "i < 36 \<Longrightarrow> ''xxxxxxxx-xxxx-4xxx-yxxx-xxxxxxxxxxxx'' ! i = CHR ''-'' \<Longrightarrow> i \<in> {8, 13, 18, 23}"
proof -
  have "list_all (\<lambda>i. ''xxxxxxxx-xxxx-4xxx-yxxx-xxxxxxxxxxxx'' ! i = CHR ''-'' \<longrightarrow> i \<in> set [8, 13, 18, 23])
          [0..<36]"
    by code_simp
  then show "i < 36 \<Longrightarrow> ''xxxxxxxx-xxxx-4xxx-yxxx-xxxxxxxxxxxx'' ! i = CHR ''-'' \<Longrightarrow> i \<in> {8, 13, 18, 23}"
    by (simp add: list_all_iff)
qed

lemma is_uuid_nth:
  assumes "is_uuid s" "i < 36"
  shows "uuid_char (''xxxxxxxx-xxxx-4xxx-yxxx-xxxxxxxxxxxx'' ! i) (s ! i)"
  using assms unfolding is_uuid_def list_all2_conv_all_nth by simp

lemma is_uuid_hyphen:
  assumes "is_uuid s" "i < 36"
  shows "s ! i = CHR ''-'' \<longleftrightarrow> i \<in> {8, 13, 18, 23}"
proof
  assume h: "s ! i = CHR ''-''"
  from is_uuid_nth[OF assms] h
  have "''xxxxxxxx-xxxx-4xxx-yxxx-xxxxxxxxxxxx'' ! i = CHR ''-''"
    by (auto simp: uuid_char_def is_hex_def split: if_splits)
  with assms(2) show "i \<in> {8, 13, 18, 23}" by (rule uuid_hyphens)
next
  assume "i \<in> {8, 13, 18, 23}"
  then show "s ! i = CHR ''-''"
    using is_uuid_nth[OF assms(1), of 8] is_uuid_nth[OF assms(1), of 13]
      is_uuid_nth[OF assms(1), of 18] is_uuid_nth[OF assms(1), of 23]
    by (auto simp: uuid_char_def)
qed

lemma decimal_digits: "set (decimal n) \<subseteq> set ''0123456789''"
proof (induction n rule: decimal.induct)
  case (1 n)
  have d: "''0123456789'' ! k \<in> set ''0123456789''" if "k < 10" for k
    using that by (intro nth_mem) simp
  show ?case
  proof (cases "n < 10")
    case True
    with d[of n] show ?thesis by (subst decimal.simps) simp
  next
    case False
    with 1 d[of "n mod 10"] show ?thesis by (subst decimal.simps) simp
  qed
qed

lemma lower_char_hyphen: "lower_char CHR ''-'' = CHR ''-''"
  by (simp add: lower_char_def)

lemma fileFilter_no_hyphen: "fileFilter orig \<Longrightarrow> CHR ''-'' \<notin> set (extname orig)"
proof
  assume f: "fileFilter orig" and "CHR ''-'' \<in> set (extname orig)"
  then have "lower_char CHR ''-'' \<in> set (toLowerCase (extname orig))"
    unfolding toLowerCase_def by (metis image_eqI set_map)
  with f show False
    by (auto simp: fileFilter_def lower_char_hyphen)
qed

text \<open>
  A stored name does not contain a version 4 identifier other than the one it starts with: the
  hyphens of an identifier are at 8, 13, 18 and 23, and those of a stored name at 8, 13, 18, 23
  and 36.
\<close>

lemma uniqueName_includes:
  assumes "is_uuid u" "is_uuid d" "fileFilter orig" "js_includes (uniqueName u t orig) d"
  shows "d = u"
proof -
  let ?rest = "decimal t @ extname orig"
  let ?n = "uniqueName u t orig"
  have n: "?n = u @ CHR ''-'' # ?rest" by (simp add: uniqueName_def)
  have lu: "length u = 36" and ld: "length d = 36"
    using assms(1,2) by (simp_all add: is_uuid_length)
  have r: "CHR ''-'' \<notin> set ?rest"
    using decimal_digits[of t] fileFilter_no_hyphen[OF assms(3)] by auto
  from js_includes_drop[OF assms(4)] obtain k where k: "prefix d (drop k ?n)" by blast
  note at = prefix_drop_nth[OF k]
  have h: "i = 36 \<or> (i < 36 \<and> i \<in> {8, 13, 18, 23})" if "i < length ?n" "?n ! i = CHR ''-''" for i
  proof -
    consider "i < 36" | "i = 36" | "i > 36" by linarith
    then show ?thesis
    proof cases
      case 1
      with that(2) n lu have "u ! i = CHR ''-''" by (simp add: nth_append)
      with is_uuid_hyphen[OF assms(1) 1] 1 show ?thesis by simp
    next
      case 2
      then show ?thesis by simp
    next
      case 3
      with that n lu have "?rest ! (i - 37) = CHR ''-''" and "i - 37 < length ?rest"
        by (auto simp: nth_append nth_Cons')
      then have "CHR ''-'' \<in> set ?rest" by (metis nth_mem)
      with r show ?thesis by simp
    qed
  qed
  have d8: "d ! 8 = CHR ''-''" and d23: "d ! 23 = CHR ''-''"
    using is_uuid_hyphen[OF assms(2), of 8] is_uuid_hyphen[OF assms(2), of 23] by simp_all
  from at[of 8] ld d8 have a8: "k + 8 < length ?n" "?n ! (k + 8) = CHR ''-''" by simp_all
  from at[of 23] ld d23 have a23: "k + 23 < length ?n" "?n ! (k + 23) = CHR ''-''" by simp_all
  from h[OF a8] h[OF a23] have "k = 0" by auto
  with k n lu ld have "prefix d (u @ CHR ''-'' # ?rest)" by simp
  then have "take (length d) (u @ CHR ''-'' # ?rest) = d"
    by (metis append_eq_conv_conj prefix_def)
  with lu ld show ?thesis by simp
qed

lemma processUploadedFile_success:
  assumes "processUploadedFile e w file uuid = (Inr res, w')" "upload_success res"
  shows "w' = w \<and> (\<exists>info. datasetInfo res = Some info \<and> dataset_id info = uuid
                         \<and> filePath info = join (uploadDir e) (mfilename file))"
  using assms
  by (auto simp: processUploadedFile_def processCSVFile_def processExcelFile_def Let_def
           split: option.splits sum.splits if_splits json_sheet.splits)

lemma getDatasetInfo_found:
  assumes "getDatasetInfo e w d u = (Some info, w')"
  shows "\<exists>n \<in> set (readdirSync (uploadDir e) w). js_includes n d"
  using assms
  by (auto simp: getDatasetInfo_def find_Some_iff split: option.splits if_splits)

lemma getDatasetInfo_none:
  assumes "\<forall>n \<in> set (readdirSync (uploadDir e) w). \<not> js_includes n d"
  shows "getDatasetInfo e w d u = (None, w)"
proof -
  from assms have "find (\<lambda>file. js_includes file d) (readdirSync (uploadDir e) w) = None"
    by (simp add: find_None_iff)
  then show ?thesis by (simp add: getDatasetInfo_def)
qed

text \<open>
  C10. The id of the dataset that a successful \<open>processUploadedFile\<close> returns is the identifier
  drawn during the processing, and the disk is left as it was. \<open>getDatasetInfo\<close> finds a dataset
  only through a stored name that contains the id it is given. The middleware stores every
  upload under \<open>uniqueName\<close> of an identifier of its own, a time and the name of an accepted
  file; when the identifier drawn during the processing is none of those, no stored name
  contains it, and \<open>getDatasetInfo\<close> applied to the returned id yields \<open>null\<close>.
\<close>

theorem dataset_id_not_found_again:
  assumes "processUploadedFile e w file uuid = (Inr res, w')"
      and "upload_success res"
      and "is_uuid uuid"
      and "\<forall>n \<in> set (readdirSync (uploadDir e) w).
             \<exists>u t orig. n = uniqueName u t orig \<and> is_uuid u \<and> u \<noteq> uuid \<and> fileFilter orig"
  shows "(\<exists>info. datasetInfo res = Some info \<and> dataset_id info = uuid \<and> w' = w
            \<and> (\<forall>n \<in> set (readdirSync (uploadDir e) w'). \<not> js_includes n (dataset_id info))
            \<and> getDatasetInfo e w' (dataset_id info) uuid' = (None, w'))
       \<and> (\<forall>d u found w''. getDatasetInfo e w d u = (Some found, w'')
             \<longrightarrow> (\<exists>n \<in> set (readdirSync (uploadDir e) w). js_includes n d))"
proof -
  from processUploadedFile_success[OF assms(1,2)] obtain info where
    i: "w' = w" "datasetInfo res = Some info" "dataset_id info = uuid"
    by blast
  have a: "\<forall>n \<in> set (readdirSync (uploadDir e) w). \<not> js_includes n uuid"
  proof
    fix n assume "n \<in> set (readdirSync (uploadDir e) w)"
    with assms(4) obtain u t orig where
      n: "n = uniqueName u t orig" "is_uuid u" "u \<noteq> uuid" "fileFilter orig" by blast
    show "\<not> js_includes n uuid"
    proof
      assume "js_includes n uuid"
      with n(1) uniqueName_includes[OF n(2) assms(3) n(4)] have "uuid = u" by simp
      with n(3) show False by simp
    qed
  qed
  with i have "getDatasetInfo e w' (dataset_id info) uuid' = (None, w')"
    by (simp add: getDatasetInfo_none)
  with i a show ?thesis using getDatasetInfo_found by blast
qed

lemma demo_upload_paths:
  "join ''/app/uploads'' ''7c9e6679-7425-40de-944b-e07fc1f90ae7-1700000000000.csv''
     = ''/app/uploads/7c9e6679-7425-40de-944b-e07fc1f90ae7-1700000000000.csv''"
  by (simp add: join_demo_store plain_def)

theorem dataset_id_not_found_again_witness:
  "processUploadedFile (demo_env py_no_chart) demo_uploads demo_upload demo_id
     = (Inr \<lparr>upload_success = True,
             datasetInfo = Some \<lparr>dataset_id = demo_id, filename = demo_stored,
               originalName = ''sales.csv'', columns = [''Region'', ''Sales''],
               dataTypes = [''Region'' \<mapsto> ''string'', ''Sales'' \<mapsto> ''number''],
               rowCount = 2,
               sampleData = [[Str ''North'', Str ''10''], [Str ''South'', Str ''20'']],
               filePath = ''/app/uploads/7c9e6679-7425-40de-944b-e07fc1f90ae7-1700000000000.csv'',
               uploadTime = 2000, fileSize = 31\<rparr>,
             upload_error = None\<rparr>, demo_uploads)
   \<and> is_uuid demo_id \<and> is_uuid demo_id' \<and> demo_id' \<noteq> demo_id \<and> fileFilter ''sales.csv''
   \<and> readdirSync (uploadDir (demo_env py_no_chart)) demo_uploads
       = [uniqueName demo_id' 1700000000000 ''sales.csv'']
   \<and> \<not> js_includes (uniqueName demo_id' 1700000000000 ''sales.csv'') demo_id
   \<and> getDatasetInfo (demo_env py_no_chart) demo_uploads demo_id demo_id' = (None, demo_uploads)"
proof -
  let ?e = "demo_env py_no_chart"
  let ?info = "\<lparr>dataset_id = demo_id, filename = demo_stored,
               originalName = ''sales.csv'', columns = [''Region'', ''Sales''],
               dataTypes = [''Region'' \<mapsto> ''string'', ''Sales'' \<mapsto> ''number''],
               rowCount = 2,
               sampleData = [[Str ''North'', Str ''10''], [Str ''South'', Str ''20'']],
               filePath = ''/app/uploads/7c9e6679-7425-40de-944b-e07fc1f90ae7-1700000000000.csv'',
               uploadTime = 2000, fileSize = 31\<rparr>"
  let ?res = "\<lparr>upload_success = True, datasetInfo = Some ?info, upload_error = None\<rparr>"
  have n: "uniqueName demo_id' 1700000000000 ''sales.csv'' = demo_stored"
    by (simp add: uniqueName_def extname_def demo_id'_def demo_stored_def decimal.simps)
  have p: "processUploadedFile ?e demo_uploads demo_upload demo_id = (Inr ?res, demo_uploads)"
    by (simp add: processUploadedFile_def processCSVFile_def readFileSync_def demo_dirs
        demo_upload_paths demo_env_sel demo_uploads_def demo_csv_def demo_dir_def
        demo_upload_def demo_stored_def statSync_def Let_def trim_def js_space_def parseCSVLine_def
        inferDataTypes_def column_type_def columnValues_def at_index_def demo_number_is_nan_def)
  have s: "upload_success ?res" by simp
  have u: "is_uuid demo_id" "is_uuid demo_id'" "demo_id' \<noteq> demo_id"
    by (simp_all add: is_uuid_def demo_id_def demo_id'_def uuid_char_def is_hex_def)
  have f: "fileFilter ''sales.csv''"
    by (simp add: fileFilter_def extname_def toLowerCase_def lower_char_def
          char_of_def bit_Suc_0_iff)
  have l: "readdirSync (uploadDir ?e) demo_uploads = [demo_stored]"
    by (simp add: readdirSync_def child_name_def demo_dirs demo_uploads_def demo_stored_def
          plain_def)
  have a: "\<forall>n \<in> set (readdirSync (uploadDir ?e) demo_uploads).
             \<exists>u t orig. n = uniqueName u t orig \<and> is_uuid u \<and> u \<noteq> demo_id \<and> fileFilter orig"
    unfolding l using n[symmetric] u f by (simp only: list.set ball_simps) blast
  from dataset_id_not_found_again[OF p s u(1) a, of demo_id'] p u f l n
  show ?thesis by simp
qed


section \<open>The analysis survives a failed execution\<close>



end
